theory Spec2Isabelle
  imports Main "HOL-Library.Multiset" "HOL-Library.Char_ord" "HOL-Library.List_Lexorder"
begin

section \<open>Package verification code (core.py, utils.py)\<close>

text \<open>
  Python's \<^verbatim>\<open>needle in haystack\<close> on strings: \<^verbatim>\<open>needle\<close> occurs as a contiguous
  substring of \<^verbatim>\<open>haystack\<close>; the empty string occurs in every string.
\<close>

fun str_in :: "string \<Rightarrow> string \<Rightarrow> bool" where
  "str_in needle [] = (needle = [])"
| "str_in needle (c # cs) = (take (length needle) (c # cs) = needle \<or> str_in needle cs)"

definition FILES_TO_EXCLUDE :: "string list" where
  "FILES_TO_EXCLUDE = [''VERSION'', ''LICENSE'']"

text \<open>
  \<^verbatim>\<open>utils.should_skip_file\<close>: the flag starts False, is raised by every entry of
  \<^verbatim>\<open>FILES_TO_EXCLUDE\<close> that occurs in the path, and by the output file name.
\<close>

definition should_skip_file :: "string \<Rightarrow> string \<Rightarrow> bool" where
  "should_skip_file file_path output_file =
     (let should_skip = fold (\<lambda>item s. if str_in item file_path then True else s)
                             FILES_TO_EXCLUDE False;
          should_skip = (if str_in output_file file_path then True else should_skip)
      in should_skip)"

text \<open>One entry of \<^verbatim>\<open>id_scan_results\<close>: a dict with the keys FileName and SPDXID.\<close>

record scan_item =
  FileName :: string
  SPDXID :: string

text \<open>
  \<^verbatim>\<open>SPDXFile.get_package_verification_code\<close>. The two hashing collaborators are
  parameters: \<^verbatim>\<open>sha1_hexdigest s\<close> stands for \<^verbatim>\<open>hashlib.sha1(s.encode()).hexdigest()\<close>
  and \<^verbatim>\<open>get_file_hash p\<close> for \<^verbatim>\<open>utils.get_file_hash(p)\<close>, the SHA1 hex digest of the
  content of the file at path \<^verbatim>\<open>p\<close>. The first loop appends to \<^verbatim>\<open>templist\<close>, the
  list is sorted in place, the second loop appends every item to \<^verbatim>\<open>filelist\<close>.
\<close>

definition get_package_verification_code ::
  "(string \<Rightarrow> string) \<Rightarrow> (string \<Rightarrow> string) \<Rightarrow> string \<Rightarrow> scan_item list \<Rightarrow> string" where
  "get_package_verification_code sha1_hexdigest get_file_hash output_file_name id_scan_results =
     (let templist = fold (\<lambda>item tl.
                             if \<not> should_skip_file (FileName item) output_file_name
                             then tl @ [get_file_hash (FileName item)] else tl)
                          id_scan_results [];
          templist = sort templist;
          filelist = fold (\<lambda>item fl. fl @ item) templist ''''
      in sha1_hexdigest filelist)"

text \<open>
  The verification code in the words of the specification: the checksums of the
  files that are not excluded, sorted ascending, concatenated without separator, hashed.
\<close>

definition verification_code_spec ::
  "(string \<Rightarrow> string) \<Rightarrow> (string \<Rightarrow> string) \<Rightarrow> string \<Rightarrow> scan_item list \<Rightarrow> string" where
  "verification_code_spec sha1_hexdigest get_file_hash output_file_name id_scan_results =
     sha1_hexdigest (concat (sort (map get_file_hash
       (filter (\<lambda>p. \<not> should_skip_file p output_file_name) (map FileName id_scan_results)))))"

section \<open>Python values shared by the document model\<close>

text \<open>
  The exceptions the modelled code raises. \<^verbatim>\<open>AttributeError\<close>, \<^verbatim>\<open>IndexError\<close> and
  \<^verbatim>\<open>TypeError\<close> are Python's own: an attribute read on \<^verbatim>\<open>None\<close>, \<^verbatim>\<open>xs[-1]\<close> on an
  empty list, and \<^verbatim>\<open>None + [..]\<close>.
\<close>

datatype exn =
    CardinalityError string
  | OrderError string
  | SPDXValueError string
  | InvalidDocumentError string
  | AttributeError
  | IndexError
  | TypeError

text \<open>What a builder operation returns when it does not raise: \<^verbatim>\<open>True\<close> or \<^verbatim>\<open>None\<close>.\<close>

datatype ret = RetNone | RetTrue

text \<open>
  A text-like value: a string, or one of the sentinels \<^verbatim>\<open>utils.NoAssert()\<close> and
  \<^verbatim>\<open>utils.SPDXNone()\<close>.
\<close>

datatype pytext = Str string | NoAssert | SPDXNone

text \<open>
  Licenses (\<^verbatim>\<open>spdx.document\<close>; the classes are used by the writer through the
  attributes \<^verbatim>\<open>identifier\<close>, \<^verbatim>\<open>url\<close>, \<^verbatim>\<open>text\<close>, \<^verbatim>\<open>full_name\<close>, \<^verbatim>\<open>cross_ref\<close>,
  \<^verbatim>\<open>comment\<close>, \<^verbatim>\<open>license_1\<close> and \<^verbatim>\<open>license_2\<close>, which are the fields here).
\<close>

record extracted_license =
  ext_identifier :: string
  ext_full_name :: "pytext option"
  ext_text :: string
  ext_cross_ref :: "string list"
  ext_comment :: "string option"

record catalog_license =
  lic_full_name :: string
  lic_identifier :: string
  lic_url :: string

datatype single_license = License catalog_license | ExtractedLicense extracted_license

datatype license =
    Single single_license
  | LicenseConjunction license license
  | LicenseDisjunction license license

text \<open>
  Any value a field of the model may hold: \<^verbatim>\<open>None\<close>, a text-like value, a license,
  or an object of some other class.
\<close>

datatype pyval = PyNone | PyText pytext | PyLicense license | PyOther

section \<open>The document under construction (fields the builders in rdfbuilders.py write)\<close>

record version =
  major :: nat
  minor :: nat

record algorithm =
  alg_identifier :: string
  alg_value :: string

record spdx_file =
  file_name :: string
  file_spdx_id :: "string option"
  file_chk_sum :: "algorithm option"
  file_license_comment :: "string option"
  file_copyright :: "pytext option"
  file_comment :: "string option"
  file_notice :: "string option"

record package =
  pkg_name :: string
  pkg_check_sum :: "algorithm option"
  pkg_source_info :: "string option"
  pkg_verif_code :: "string option"
  pkg_verif_exc_files :: "string list"
  pkg_license_comment :: "string option"
  pkg_cr_text :: "string option"
  pkg_summary :: "string option"
  pkg_description :: "string option"
  pkg_files :: "spdx_file list"

record snippet =
  snip_spdx_id :: pyval
  snip_name :: "string option"
  snip_comment :: "string option"
  snip_copyright :: pyval
  snip_license_comment :: "string option"
  snip_from_file_spdxid :: pyval
  snip_conc_lics :: pyval
  licenses_in_snippet :: "pyval list"

record document =
  doc_version :: "version option"
  doc_name :: "string option"
  doc_spdx_id :: "string option"
  doc_comment :: "string option"
  doc_namespace :: "string option"
  doc_package :: "package option"
  doc_snippet :: "snippet list"

definition empty_document :: document where
  "empty_document = \<lparr>doc_version = None, doc_name = None, doc_spdx_id = None,
     doc_comment = None, doc_namespace = None, doc_package = None, doc_snippet = []\<rparr>"

section \<open>Builder state (rdfbuilders.py)\<close>

text \<open>
  The per-field flags of the builder object. \<^verbatim>\<open>package_set\<close> and \<^verbatim>\<open>snippet_id_set\<close>
  are the flags behind \<^verbatim>\<open>assert_package_exists\<close> and \<^verbatim>\<open>assert_snippet_exists\<close>.
\<close>

record builder =
  doc_version_set :: bool
  doc_comment_set :: bool
  doc_namespace_set :: bool
  doc_name_set :: bool
  doc_spdx_id_set :: bool
  package_set :: bool
  package_chk_sum_set :: bool
  package_source_info_set :: bool
  package_verif_set :: bool
  package_license_comment_set :: bool
  package_cr_text_set :: bool
  package_summary_set :: bool
  package_desc_set :: bool
  file_spdx_id_set :: bool
  file_chksum_set :: bool
  file_license_comment_set :: bool
  file_copytext_set :: bool
  file_comment_set :: bool
  file_notice_set :: bool
  snippet_id_set :: bool
  snippet_lic_comment_set :: bool
  snippet_comment_set :: bool
  snippet_copyright_set :: bool

text \<open>The state after \<^verbatim>\<open>Builder.reset()\<close>: every flag is clear.\<close>

definition reset :: builder where
  "reset = \<lparr>doc_version_set = False, doc_comment_set = False, doc_namespace_set = False,
     doc_name_set = False, doc_spdx_id_set = False,
     package_set = False, package_chk_sum_set = False, package_source_info_set = False,
     package_verif_set = False, package_license_comment_set = False,
     package_cr_text_set = False, package_summary_set = False, package_desc_set = False,
     file_spdx_id_set = False, file_chksum_set = False, file_license_comment_set = False,
     file_copytext_set = False, file_comment_set = False, file_notice_set = False,
     snippet_id_set = False, snippet_lic_comment_set = False, snippet_comment_set = False,
     snippet_copyright_set = False\<rparr>"

text \<open>
  \<^verbatim>\<open>DocBuilder.reset_document\<close> clears the six document flags (the flag of the data
  license is not part of this model, as \<^verbatim>\<open>set_doc_data_lic\<close> is not).
\<close>

definition reset_document :: "builder \<Rightarrow> builder" where
  "reset_document b = b\<lparr>doc_version_set := False, doc_comment_set := False,
     doc_namespace_set := False, doc_name_set := False, doc_spdx_id_set := False\<rparr>"

text \<open>
  A builder operation takes the builder and the document and gives back what it
  returned or raised, together with the builder and the document as it left them: a
  flag assigned before a \<^verbatim>\<open>raise\<close> stays assigned.
\<close>

type_synonym outcome = "(exn + ret) \<times> builder \<times> document"

subsection \<open>DocBuilder\<close>

definition is_digit :: "char \<Rightarrow> bool" where
  "is_digit c = (c \<in> set ''0123456789'')"

text \<open>
  \<^verbatim>\<open>VERS_STR_REGEX.match(value)\<close> for the pattern \<^verbatim>\<open>SPDX-(\d+)\.(\d+)\<close>: a match at
  the start of the string, giving the two groups. Each \<^verbatim>\<open>\d+\<close> is greedy, and no
  backtracking can help since a digit is never the separating dot. Digits are the ASCII
  digits.
\<close>

definition VERS_STR_REGEX_match :: "string \<Rightarrow> (string \<times> string) option" where
  "VERS_STR_REGEX_match v =
     (if take 5 v = ''SPDX-'' then
        (let rest = drop 5 v;
             g1 = takeWhile is_digit rest;
             rest1 = dropWhile is_digit rest
         in if g1 = [] then None
            else (case rest1 of
                    [] \<Rightarrow> None
                  | c # rest2 \<Rightarrow>
                      if c = CHR ''.'' then
                        (let g2 = takeWhile is_digit rest2
                         in if g2 = [] then None else Some (g1, g2))
                      else None))
      else None)"

text \<open>\<^verbatim>\<open>int(s)\<close> on a string of decimal digits.\<close>

definition int_of_digits :: "string \<Rightarrow> nat" where
  "int_of_digits ds = fold (\<lambda>c n. 10 * n + (of_char c - 48)) ds 0"

definition set_doc_version :: "builder \<Rightarrow> document \<Rightarrow> string \<Rightarrow> outcome" where
  "set_doc_version b doc v =
     (if \<not> doc_version_set b then
        (let b1 = b\<lparr>doc_version_set := True\<rparr>
         in case VERS_STR_REGEX_match v of
              None \<Rightarrow> (Inl (SPDXValueError ''Document::Version''), b1, doc)
            | Some (g1, g2) \<Rightarrow>
                (Inr RetTrue, b1,
                 doc\<lparr>doc_version := Some \<lparr>major = int_of_digits g1, minor = int_of_digits g2\<rparr>\<rparr>))
      else (Inl (CardinalityError ''Document::Version''), b, doc))"

definition set_doc_name :: "builder \<Rightarrow> document \<Rightarrow> string \<Rightarrow> outcome" where
  "set_doc_name b doc name =
     (if \<not> doc_name_set b then
        (Inr RetTrue, b\<lparr>doc_name_set := True\<rparr>, doc\<lparr>doc_name := Some name\<rparr>)
      else (Inl (CardinalityError ''Document::Name''), b, doc))"

text \<open>
  \<^verbatim>\<open>validations.validate_doc_spdx_id\<close> and \<^verbatim>\<open>validations.validate_doc_namespace\<close>
  are parameters of the two setters that call them.
\<close>

definition set_doc_spdx_id ::
  "(string \<Rightarrow> bool) \<Rightarrow> builder \<Rightarrow> document \<Rightarrow> string \<Rightarrow> outcome" where
  "set_doc_spdx_id validate_doc_spdx_id b doc doc_spdx_id_line =
     (if \<not> doc_spdx_id_set b then
        (if validate_doc_spdx_id doc_spdx_id_line then
           (Inr RetTrue, b\<lparr>doc_spdx_id_set := True\<rparr>,
            doc\<lparr>doc_spdx_id := Some doc_spdx_id_line\<rparr>)
         else (Inl (SPDXValueError ''Document::SPDXID''), b, doc))
      else (Inl (CardinalityError ''Document::SPDXID''), b, doc))"

definition set_doc_comment :: "builder \<Rightarrow> document \<Rightarrow> string \<Rightarrow> outcome" where
  "set_doc_comment b doc comment =
     (if \<not> doc_comment_set b then
        (Inr RetNone, b\<lparr>doc_comment_set := True\<rparr>, doc\<lparr>doc_comment := Some comment\<rparr>)
      else (Inl (CardinalityError ''Document::Comment''), b, doc))"

definition set_doc_namespace ::
  "(string \<Rightarrow> bool) \<Rightarrow> builder \<Rightarrow> document \<Rightarrow> string \<Rightarrow> outcome" where
  "set_doc_namespace validate_doc_namespace b doc namespace =
     (if \<not> doc_namespace_set b then
        (let b1 = b\<lparr>doc_namespace_set := True\<rparr>
         in if validate_doc_namespace namespace then
              (Inr RetTrue, b1, doc\<lparr>doc_namespace := Some namespace\<rparr>)
            else (Inl (SPDXValueError ''Document::Namespace''), b1, doc))
      else (Inl (CardinalityError ''Document::Comment''), b, doc))"

subsection \<open>Helpers inherited from tagvaluebuilders.py\<close>

text \<open>
  Modelled from the spec: \<^verbatim>\<open>assert_package_exists\<close>, \<^verbatim>\<open>has_package\<close>, \<^verbatim>\<open>has_file\<close>,
  \<^verbatim>\<open>file\<close> and \<^verbatim>\<open>assert_snippet_exists\<close> are defined in tagvaluebuilders.py, which is
  not among the sources. The specification (4.4, step 1) says that an operation
  "asserts precondition entities exist (e.g., a package must already exist before a file
  attribute is accepted) - violation signals an OrderError", and the docstrings of the
  callers say "Raises OrderError if no package previously defined" and "Raises
  OrderError if no snippet previously defined". The two assertions take no document, so
  they read the builder's own record of what has been created; \<^verbatim>\<open>has_package\<close> and
  \<^verbatim>\<open>has_file\<close> take the document and look at it; \<^verbatim>\<open>file(doc)\<close> is the current file,
  the last file of the package.
\<close>

definition assert_package_exists :: "builder \<Rightarrow> exn + unit" where
  "assert_package_exists b = (if package_set b then Inr () else Inl (OrderError ''Package''))"

definition assert_snippet_exists :: "builder \<Rightarrow> exn + unit" where
  "assert_snippet_exists b = (if snippet_id_set b then Inr () else Inl (OrderError ''Snippet''))"

definition has_package :: "document \<Rightarrow> bool" where
  "has_package doc = (doc_package doc \<noteq> None)"

definition has_file :: "document \<Rightarrow> bool" where
  "has_file doc = (case doc_package doc of None \<Rightarrow> False | Some p \<Rightarrow> pkg_files p \<noteq> [])"

text \<open>
  The assignments \<^verbatim>\<open>doc.package.f = v\<close>, \<^verbatim>\<open>self.file(doc).f = v\<close> and
  \<^verbatim>\<open>doc.snippet[-1].f = v\<close>, with what Python does when the object is not there.
\<close>

definition assign_package :: "builder \<Rightarrow> document \<Rightarrow> (package \<Rightarrow> package) \<Rightarrow> ret \<Rightarrow> outcome" where
  "assign_package b doc upd r =
     (case doc_package doc of
        None \<Rightarrow> (Inl AttributeError, b, doc)
      | Some p \<Rightarrow> (Inr r, b, doc\<lparr>doc_package := Some (upd p)\<rparr>))"

definition assign_file :: "builder \<Rightarrow> document \<Rightarrow> (spdx_file \<Rightarrow> spdx_file) \<Rightarrow> ret \<Rightarrow> outcome" where
  "assign_file b doc upd r =
     (case doc_package doc of
        None \<Rightarrow> (Inl AttributeError, b, doc)
      | Some p \<Rightarrow>
          (case pkg_files p of
             [] \<Rightarrow> (Inl IndexError, b, doc)
           | f # fs \<Rightarrow>
               (Inr r, b,
                doc\<lparr>doc_package :=
                  Some (p\<lparr>pkg_files := butlast (f # fs) @ [upd (last (f # fs))]\<rparr>)\<rparr>)))"

definition assign_snippet :: "builder \<Rightarrow> document \<Rightarrow> (snippet \<Rightarrow> snippet) \<Rightarrow> ret \<Rightarrow> outcome" where
  "assign_snippet b doc upd r =
     (case doc_snippet doc of
        [] \<Rightarrow> (Inl IndexError, b, doc)
      | s # ss \<Rightarrow>
          (Inr r, b, doc\<lparr>doc_snippet := butlast (s # ss) @ [upd (last (s # ss))]\<rparr>))"

subsection \<open>PackageBuilder\<close>

definition set_pkg_chk_sum :: "builder \<Rightarrow> document \<Rightarrow> string \<Rightarrow> outcome" where
  "set_pkg_chk_sum b doc chk_sum =
     (case assert_package_exists b of
        Inl e \<Rightarrow> (Inl e, b, doc)
      | Inr _ \<Rightarrow>
          if \<not> package_chk_sum_set b then
            assign_package (b\<lparr>package_chk_sum_set := True\<rparr>) doc
              (\<lambda>p. p\<lparr>pkg_check_sum := Some \<lparr>alg_identifier = ''SHA1'', alg_value = chk_sum\<rparr>\<rparr>)
              RetNone
          else (Inl (CardinalityError ''Package::CheckSum''), b, doc))"

definition set_pkg_source_info :: "builder \<Rightarrow> document \<Rightarrow> string \<Rightarrow> outcome" where
  "set_pkg_source_info b doc text =
     (case assert_package_exists b of
        Inl e \<Rightarrow> (Inl e, b, doc)
      | Inr _ \<Rightarrow>
          if \<not> package_source_info_set b then
            assign_package (b\<lparr>package_source_info_set := True\<rparr>) doc
              (\<lambda>p. p\<lparr>pkg_source_info := Some text\<rparr>) RetTrue
          else (Inl (CardinalityError ''Package::SourceInfo''), b, doc))"

definition set_pkg_verif_code :: "builder \<Rightarrow> document \<Rightarrow> string \<Rightarrow> outcome" where
  "set_pkg_verif_code b doc code =
     (case assert_package_exists b of
        Inl e \<Rightarrow> (Inl e, b, doc)
      | Inr _ \<Rightarrow>
          if \<not> package_verif_set b then
            assign_package (b\<lparr>package_verif_set := True\<rparr>) doc
              (\<lambda>p. p\<lparr>pkg_verif_code := Some code\<rparr>) RetNone
          else (Inl (CardinalityError ''Package::VerificationCode''), b, doc))"

text \<open>\<^verbatim>\<open>doc.package.add_exc_file(filename)\<close> appends to the list of excluded files.\<close>

definition set_pkg_excl_file :: "builder \<Rightarrow> document \<Rightarrow> string \<Rightarrow> outcome" where
  "set_pkg_excl_file b doc filename =
     (case assert_package_exists b of
        Inl e \<Rightarrow> (Inl e, b, doc)
      | Inr _ \<Rightarrow>
          assign_package b doc
            (\<lambda>p. p\<lparr>pkg_verif_exc_files := pkg_verif_exc_files p @ [filename]\<rparr>) RetNone)"

definition set_pkg_license_comment :: "builder \<Rightarrow> document \<Rightarrow> string \<Rightarrow> outcome" where
  "set_pkg_license_comment b doc text =
     (case assert_package_exists b of
        Inl e \<Rightarrow> (Inl e, b, doc)
      | Inr _ \<Rightarrow>
          if \<not> package_license_comment_set b then
            assign_package (b\<lparr>package_license_comment_set := True\<rparr>) doc
              (\<lambda>p. p\<lparr>pkg_license_comment := Some text\<rparr>) RetTrue
          else (Inl (CardinalityError ''Package::LicenseComment''), b, doc))"

definition set_pkg_cr_text :: "builder \<Rightarrow> document \<Rightarrow> string \<Rightarrow> outcome" where
  "set_pkg_cr_text b doc text =
     (case assert_package_exists b of
        Inl e \<Rightarrow> (Inl e, b, doc)
      | Inr _ \<Rightarrow>
          if \<not> package_cr_text_set b then
            assign_package (b\<lparr>package_cr_text_set := True\<rparr>) doc
              (\<lambda>p. p\<lparr>pkg_cr_text := Some text\<rparr>) RetNone
          else (Inl (CardinalityError ''Package::CopyrightText''), b, doc))"

definition set_pkg_summary :: "builder \<Rightarrow> document \<Rightarrow> string \<Rightarrow> outcome" where
  "set_pkg_summary b doc text =
     (case assert_package_exists b of
        Inl e \<Rightarrow> (Inl e, b, doc)
      | Inr _ \<Rightarrow>
          if \<not> package_summary_set b then
            assign_package (b\<lparr>package_summary_set := True\<rparr>) doc
              (\<lambda>p. p\<lparr>pkg_summary := Some text\<rparr>) RetNone
          else (Inl (CardinalityError ''Package::Summary''), b, doc))"

definition set_pkg_desc :: "builder \<Rightarrow> document \<Rightarrow> string \<Rightarrow> outcome" where
  "set_pkg_desc b doc text =
     (case assert_package_exists b of
        Inl e \<Rightarrow> (Inl e, b, doc)
      | Inr _ \<Rightarrow>
          if \<not> package_desc_set b then
            assign_package (b\<lparr>package_desc_set := True\<rparr>) doc
              (\<lambda>p. p\<lparr>pkg_description := Some text\<rparr>) RetNone
          else (Inl (CardinalityError ''Package::Description''), b, doc))"

subsection \<open>FileBuilder\<close>

definition set_file_chksum :: "builder \<Rightarrow> document \<Rightarrow> string \<Rightarrow> outcome" where
  "set_file_chksum b doc chk_sum =
     (if has_package doc \<and> has_file doc then
        (if \<not> file_chksum_set b then
           assign_file (b\<lparr>file_chksum_set := True\<rparr>) doc
             (\<lambda>f. f\<lparr>file_chk_sum := Some \<lparr>alg_identifier = ''SHA1'', alg_value = chk_sum\<rparr>\<rparr>)
             RetTrue
         else (Inl (CardinalityError ''File::CheckSum''), b, doc))
      else (Inl (OrderError ''File::CheckSum''), b, doc))"

definition set_file_license_comment :: "builder \<Rightarrow> document \<Rightarrow> string \<Rightarrow> outcome" where
  "set_file_license_comment b doc text =
     (if has_package doc \<and> has_file doc then
        (if \<not> file_license_comment_set b then
           assign_file (b\<lparr>file_license_comment_set := True\<rparr>) doc
             (\<lambda>f. f\<lparr>file_license_comment := Some text\<rparr>) RetTrue
         else (Inl (CardinalityError ''File::LicenseComment''), b, doc))
      else (Inl (OrderError ''File::LicenseComment''), b, doc))"

definition set_file_copyright :: "builder \<Rightarrow> document \<Rightarrow> string \<Rightarrow> outcome" where
  "set_file_copyright b doc text =
     (if has_package doc \<and> has_file doc then
        (if \<not> file_copytext_set b then
           assign_file (b\<lparr>file_copytext_set := True\<rparr>) doc
             (\<lambda>f. f\<lparr>file_copyright := Some (Str text)\<rparr>) RetTrue
         else (Inl (CardinalityError ''File::CopyRight''), b, doc))
      else (Inl (OrderError ''File::CopyRight''), b, doc))"

definition set_file_comment :: "builder \<Rightarrow> document \<Rightarrow> string \<Rightarrow> outcome" where
  "set_file_comment b doc text =
     (if has_package doc \<and> has_file doc then
        (if \<not> file_comment_set b then
           assign_file (b\<lparr>file_comment_set := True\<rparr>) doc
             (\<lambda>f. f\<lparr>file_comment := Some text\<rparr>) RetTrue
         else (Inl (CardinalityError ''File::Comment''), b, doc))
      else (Inl (OrderError ''File::Comment''), b, doc))"

text \<open>
  \<^verbatim>\<open>tagvaluebuilders.str_from_text\<close> is a parameter: it gives the text between the
  text markers, or \<^verbatim>\<open>None\<close>.
\<close>

definition set_file_notice ::
  "(string \<Rightarrow> string option) \<Rightarrow> builder \<Rightarrow> document \<Rightarrow> string \<Rightarrow> outcome" where
  "set_file_notice str_from_text b doc text =
     (if has_package doc \<and> has_file doc then
        (if \<not> file_notice_set b then
           assign_file (b\<lparr>file_notice_set := True\<rparr>) doc
             (\<lambda>f. f\<lparr>file_notice := str_from_text text\<rparr>) RetTrue
         else (Inl (CardinalityError ''File::Notice''), b, doc))
      else (Inl (OrderError ''File::Notice''), b, doc))"

subsection \<open>SnippetBuilder\<close>

text \<open>
  In \<^verbatim>\<open>set_snippet_lic_comment\<close> the last branch builds a \<^verbatim>\<open>CardinalityError\<close> object
  and drops it (there is no \<^verbatim>\<open>raise\<close>), so the method falls off its end and returns
  \<^verbatim>\<open>None\<close>.
\<close>

definition set_snippet_lic_comment :: "builder \<Rightarrow> document \<Rightarrow> string \<Rightarrow> outcome" where
  "set_snippet_lic_comment b doc lic_comment =
     (case assert_snippet_exists b of
        Inl e \<Rightarrow> (Inl e, b, doc)
      | Inr _ \<Rightarrow>
          if \<not> snippet_lic_comment_set b then
            assign_snippet (b\<lparr>snippet_lic_comment_set := True\<rparr>) doc
              (\<lambda>s. s\<lparr>snip_license_comment := Some lic_comment\<rparr>) RetNone
          else (Inr RetNone, b, doc))"

definition set_snippet_comment :: "builder \<Rightarrow> document \<Rightarrow> string \<Rightarrow> outcome" where
  "set_snippet_comment b doc comment =
     (case assert_snippet_exists b of
        Inl e \<Rightarrow> (Inl e, b, doc)
      | Inr _ \<Rightarrow>
          if \<not> snippet_comment_set b then
            assign_snippet (b\<lparr>snippet_comment_set := True\<rparr>) doc
              (\<lambda>s. s\<lparr>snip_comment := Some comment\<rparr>) RetTrue
          else (Inl (CardinalityError ''Snippet::comment''), b, doc))"

definition set_snippet_copyright :: "builder \<Rightarrow> document \<Rightarrow> string \<Rightarrow> outcome" where
  "set_snippet_copyright b doc copyright =
     (case assert_snippet_exists b of
        Inl e \<Rightarrow> (Inl e, b, doc)
      | Inr _ \<Rightarrow>
          if \<not> snippet_copyright_set b then
            assign_snippet (b\<lparr>snippet_copyright_set := True\<rparr>) doc
              (\<lambda>s. s\<lparr>snip_copyright := PyText (Str copyright)\<rparr>) RetNone
          else (Inl (CardinalityError ''Snippet::copyrightText''), b, doc))"

subsection \<open>The package-level and file-level setters as one family\<close>

datatype pkg_setter =
    PkgChkSum | PkgSourceInfo | PkgVerifCode | PkgExclFile
  | PkgLicenseComment | PkgCrText | PkgSummary | PkgDesc

fun run_pkg_setter :: "pkg_setter \<Rightarrow> builder \<Rightarrow> document \<Rightarrow> string \<Rightarrow> outcome" where
  "run_pkg_setter PkgChkSum = set_pkg_chk_sum"
| "run_pkg_setter PkgSourceInfo = set_pkg_source_info"
| "run_pkg_setter PkgVerifCode = set_pkg_verif_code"
| "run_pkg_setter PkgExclFile = set_pkg_excl_file"
| "run_pkg_setter PkgLicenseComment = set_pkg_license_comment"
| "run_pkg_setter PkgCrText = set_pkg_cr_text"
| "run_pkg_setter PkgSummary = set_pkg_summary"
| "run_pkg_setter PkgDesc = set_pkg_desc"

datatype file_setter =
    FileChkSum | FileLicenseComment | FileCopyright | FileComment | FileNotice

fun run_file_setter ::
  "(string \<Rightarrow> string option) \<Rightarrow> file_setter \<Rightarrow> builder \<Rightarrow> document \<Rightarrow> string \<Rightarrow> outcome" where
  "run_file_setter sft FileChkSum = set_file_chksum"
| "run_file_setter sft FileLicenseComment = set_file_license_comment"
| "run_file_setter sft FileCopyright = set_file_copyright"
| "run_file_setter sft FileComment = set_file_comment"
| "run_file_setter sft FileNotice = set_file_notice sft"

text \<open>
  A builder and a document belong together when the builder records a package only if
  the document has one (the builder is reset between documents).
\<close>

definition coherent :: "builder \<Rightarrow> document \<Rightarrow> bool" where
  "coherent b doc = (package_set b \<longrightarrow> doc_package doc \<noteq> None)"

section \<open>Snippet validation (snippet.py)\<close>

text \<open>
  \<^verbatim>\<open>messages\<close> is \<^verbatim>\<open>None\<close> (the default) or a list. \<^verbatim>\<open>messages + [m]\<close> raises
  TypeError on \<^verbatim>\<open>None\<close> and gives the longer list otherwise.
\<close>

definition add_message :: "string list option \<Rightarrow> string \<Rightarrow> exn + string list option" where
  "add_message messages m =
     (case messages of None \<Rightarrow> Inl TypeError | Some ms \<Rightarrow> Inr (Some (ms @ [m])))"

text \<open>
  The two \<^verbatim>\<open>isinstance\<close> tests: a string or one of the two sentinels; a license (of
  any of the license classes) or one of the two sentinels.
\<close>

fun is_text_or_special :: "pyval \<Rightarrow> bool" where
  "is_text_or_special (PyText _) = True"
| "is_text_or_special _ = False"

fun is_license_or_special :: "pyval \<Rightarrow> bool" where
  "is_license_or_special (PyLicense _) = True"
| "is_license_or_special (PyText NoAssert) = True"
| "is_license_or_special (PyText SPDXNone) = True"
| "is_license_or_special _ = False"

definition validate_spdx_id :: "snippet \<Rightarrow> string list option \<Rightarrow> exn + string list option" where
  "validate_spdx_id s messages =
     (if snip_spdx_id s = PyNone
      then add_message messages ''Snippet has no SPDX Identifier.''
      else Inr messages)"

definition validate_copyright_text ::
  "snippet \<Rightarrow> string list option \<Rightarrow> exn + string list option" where
  "validate_copyright_text s messages =
     (if \<not> is_text_or_special (snip_copyright s)
      then add_message messages
             ''Snippet copyright must be str or unicode or utils.NoAssert or utils.SPDXNone''
      else Inr messages)"

definition validate_snip_from_file_spdxid ::
  "snippet \<Rightarrow> string list option \<Rightarrow> exn + string list option" where
  "validate_snip_from_file_spdxid s messages =
     (if snip_from_file_spdxid s = PyNone
      then add_message messages ''Snippet has no Snippet from File SPDX Identifier.''
      else Inr messages)"

definition validate_concluded_license ::
  "snippet \<Rightarrow> string list option \<Rightarrow> exn + string list option" where
  "validate_concluded_license s messages =
     (if \<not> is_license_or_special (snip_conc_lics s)
      then add_message messages
             ''Snippet Concluded License must be one of document.License, utils.NoAssert or utils.SPDXNone''
      else Inr messages)"

text \<open>The loop over \<^verbatim>\<open>licenses_in_snippet\<close>; an exception ends it.\<close>

fun validate_each_license ::
  "pyval list \<Rightarrow> string list option \<Rightarrow> exn + string list option" where
  "validate_each_license [] messages = Inr messages"
| "validate_each_license (lic # lics) messages =
     (if \<not> is_license_or_special lic then
        (case add_message messages
                ''Licenses in Snippet must be one of document.License, utils.NoAssert or utils.SPDXNone'' of
           Inl e \<Rightarrow> Inl e
         | Inr messages1 \<Rightarrow> validate_each_license lics messages1)
      else validate_each_license lics messages)"

definition validate_licenses_in_snippet ::
  "snippet \<Rightarrow> string list option \<Rightarrow> exn + string list option" where
  "validate_licenses_in_snippet s messages =
     (if length (licenses_in_snippet s) = 0
      then add_message messages ''Snippet must have at least one license in file.''
      else validate_each_license (licenses_in_snippet s) messages)"

definition validate :: "snippet \<Rightarrow> string list option \<Rightarrow> exn + string list option" where
  "validate s messages =
     (case validate_spdx_id s messages of Inl e \<Rightarrow> Inl e | Inr m1 \<Rightarrow>
      case validate_copyright_text s m1 of Inl e \<Rightarrow> Inl e | Inr m2 \<Rightarrow>
      case validate_snip_from_file_spdxid s m2 of Inl e \<Rightarrow> Inl e | Inr m3 \<Rightarrow>
      case validate_concluded_license s m3 of Inl e \<Rightarrow> Inl e | Inr m4 \<Rightarrow>
      validate_licenses_in_snippet s m4)"

text \<open>The five checks, as the claim lists them.\<close>

definition snippet_checks_pass :: "snippet \<Rightarrow> bool" where
  "snippet_checks_pass s =
     (snip_spdx_id s \<noteq> PyNone \<and>
      is_text_or_special (snip_copyright s) \<and>
      snip_from_file_spdxid s \<noteq> PyNone \<and>
      is_license_or_special (snip_conc_lics s) \<and>
      licenses_in_snippet s \<noteq> [] \<and>
      list_all is_license_or_special (licenses_in_snippet s))"

section \<open>The SPDXID production of the tag-value parser (tagvalue.py)\<close>

text \<open>
  Modelled from the spec: \<^verbatim>\<open>set_file_spdx_id\<close> is defined in tagvaluebuilders.py, which
  is not among the sources. It follows the contract of a builder operation
  (specification 4.4): OrderError unless the package and its current file exist,
  CardinalityError if the field is already set on the current file, a value error if the
  identifier is malformed, and otherwise the current file gets the identifier and the
  field is marked as set. \<^verbatim>\<open>validate_file_spdx_id\<close> is a parameter.
\<close>

definition set_file_spdx_id ::
  "(string \<Rightarrow> bool) \<Rightarrow> builder \<Rightarrow> document \<Rightarrow> string \<Rightarrow> outcome" where
  "set_file_spdx_id validate_file_spdx_id b doc spdx_id =
     (if has_package doc \<and> has_file doc then
        (if \<not> file_spdx_id_set b then
           (if validate_file_spdx_id spdx_id then
              assign_file (b\<lparr>file_spdx_id_set := True\<rparr>) doc
                (\<lambda>f. f\<lparr>file_spdx_id := Some spdx_id\<rparr>) RetTrue
            else (Inl (SPDXValueError ''File::SPDXID''), b, doc))
         else (Inl (CardinalityError ''File::SPDXID''), b, doc))
      else (Inl (OrderError ''File::SPDXID''), b, doc))"

text \<open>
  \<^verbatim>\<open>Parser.p_spdx_id\<close>, for the value of the line. The production has no
  \<^verbatim>\<open>try\<close>, so what the builder raises leaves the production. The document setter
  is \<^verbatim>\<open>set_doc_spdx_id\<close> as rdfbuilders.py defines it.
\<close>

definition p_spdx_id ::
  "(string \<Rightarrow> bool) \<Rightarrow> (string \<Rightarrow> bool) \<Rightarrow> builder \<Rightarrow> document \<Rightarrow> string \<Rightarrow> outcome" where
  "p_spdx_id validate_doc_spdx_id validate_file_spdx_id b doc v =
     (if \<not> doc_spdx_id_set b then set_doc_spdx_id validate_doc_spdx_id b doc v
      else set_file_spdx_id validate_file_spdx_id b doc v)"

text \<open>
  The SPDXID lines of one pass, in order: each is reduced by \<^verbatim>\<open>p_spdx_id\<close>, and an
  exception that leaves the production ends the pass. \<^verbatim>\<open>file_spdx_id_lines\<close> is the
  same pass with every line given to \<^verbatim>\<open>set_file_spdx_id\<close>.
\<close>

fun spdx_id_lines ::
  "(string \<Rightarrow> bool) \<Rightarrow> (string \<Rightarrow> bool) \<Rightarrow> string list \<Rightarrow> builder \<Rightarrow> document \<Rightarrow>
     exn option \<times> builder \<times> document" where
  "spdx_id_lines vd vf [] b doc = (None, b, doc)"
| "spdx_id_lines vd vf (v # vs) b doc =
     (case p_spdx_id vd vf b doc v of
        (Inl e, b1, d1) \<Rightarrow> (Some e, b1, d1)
      | (Inr _, b1, d1) \<Rightarrow> spdx_id_lines vd vf vs b1 d1)"

fun file_spdx_id_lines ::
  "(string \<Rightarrow> bool) \<Rightarrow> string list \<Rightarrow> builder \<Rightarrow> document \<Rightarrow>
     exn option \<times> builder \<times> document" where
  "file_spdx_id_lines vf [] b doc = (None, b, doc)"
| "file_spdx_id_lines vf (v # vs) b doc =
     (case set_file_spdx_id vf b doc v of
        (Inl e, b1, d1) \<Rightarrow> (Some e, b1, d1)
      | (Inr _, b1, d1) \<Rightarrow> file_spdx_id_lines vf vs b1 d1)"

section \<open>The RDF graph (rdflib, as the writer uses it)\<close>

text \<open>
  The terms the writer puts into a triple or into a lookup pattern. \<^verbatim>\<open>URIRef\<close>,
  \<^verbatim>\<open>BNode\<close> and \<^verbatim>\<open>Literal\<close> are rdflib's term classes; \<^verbatim>\<open>PyStr\<close> is a plain Python
  string passed where a term is expected (the writer does so twice). rdflib compares
  terms by class and value: a \<^verbatim>\<open>Literal\<close> is equal only to another \<^verbatim>\<open>Literal\<close>, so
  \<^verbatim>\<open>Literal(s)\<close> and the plain string \<^verbatim>\<open>s\<close> are different terms, as the constructors
  here are. A blank node is named by a number; \<^verbatim>\<open>BNode()\<close> takes the next unused one.
\<close>

datatype node = URIRef string | BNode nat | Literal string | PyStr string

type_synonym triple = "node \<times> node \<times> node"

text \<open>
  A graph is a set of triples; it is kept as a list without repetition, in the order
  in which the triples were first added.
\<close>

type_synonym graph = "triple list"

definition graph_add :: "graph \<Rightarrow> triple \<Rightarrow> graph" where
  "graph_add g t = (if t \<in> set g then g else g @ [t])"

text \<open>\<^verbatim>\<open>graph.triples((s, p, o))\<close>, where \<^verbatim>\<open>None\<close> in the pattern matches any term.\<close>

fun matches :: "node option \<times> node option \<times> node option \<Rightarrow> triple \<Rightarrow> bool" where
  "matches (ps, pp, po) (s, p, obj) =
     ((ps = None \<or> ps = Some s) \<and> (pp = None \<or> pp = Some p) \<and> (po = None \<or> po = Some obj))"

definition triples :: "graph \<Rightarrow> node option \<times> node option \<times> node option \<Rightarrow> triple list" where
  "triples g pat = filter (matches pat) g"

definition spdx_namespace :: "string \<Rightarrow> node" where
  "spdx_namespace term = URIRef (''http://spdx.org/rdf/terms#'' @ term)"

definition RDF_type :: node where
  "RDF_type = URIRef ''http://www.w3.org/1999/02/22-rdf-syntax-ns#type''"

definition RDFS_comment :: node where
  "RDFS_comment = URIRef ''http://www.w3.org/2000/01/rdf-schema#comment''"

definition RDFS_seeAlso :: node where
  "RDFS_seeAlso = URIRef ''http://www.w3.org/2000/01/rdf-schema#seeAlso''"

section \<open>The RDF writer (writers/rdf.py)\<close>

text \<open>
  The state of a writer object: its graph, the supply of blank nodes, and the lines it
  has printed.
\<close>

record writer =
  w_graph :: graph
  w_fresh :: nat
  w_printed :: "string list"

definition new_writer :: writer where
  "new_writer = \<lparr>w_graph = [], w_fresh = 0, w_printed = []\<rparr>"

definition add :: "writer \<Rightarrow> triple \<Rightarrow> writer" where
  "add w t = w\<lparr>w_graph := graph_add (w_graph w) t\<rparr>"

definition new_BNode :: "writer \<Rightarrow> node \<times> writer" where
  "new_BNode w = (BNode (w_fresh w), w\<lparr>w_fresh := Suc (w_fresh w)\<rparr>)"

subsection \<open>BaseWriter\<close>

definition create_checksum_node :: "writer \<Rightarrow> algorithm \<Rightarrow> node \<times> writer" where
  "create_checksum_node w chksum =
     (let (chksum_node, w) = new_BNode w;
          w = add w (chksum_node, RDF_type, spdx_namespace ''Checksum'');
          w = add w (chksum_node, spdx_namespace ''algorithm'', Literal (alg_identifier chksum));
          w = add w (chksum_node, spdx_namespace ''checksumValue'', Literal (alg_value chksum))
      in (chksum_node, w))"

fun to_special_value :: "pytext \<Rightarrow> node" where
  "to_special_value NoAssert = spdx_namespace ''noassertion''"
| "to_special_value SPDXNone = spdx_namespace ''none''"
| "to_special_value (Str v) = Literal v"

subsection \<open>LicenseWriter\<close>

text \<open>
  \<^verbatim>\<open>create_extracted_license\<close>. The lookup pattern holds \<^verbatim>\<open>lic.identifier\<close> itself,
  a plain string; the triple added further down holds \<^verbatim>\<open>Literal(lic.identifier)\<close>.
\<close>

definition create_extracted_license :: "writer \<Rightarrow> extracted_license \<Rightarrow> node \<times> writer" where
  "create_extracted_license w lic =
     (let licenses = triples (w_graph w)
                       (None, Some (spdx_namespace ''licenseId''), Some (PyStr (ext_identifier lic)))
      in case licenses of
           (s, p, obj) # rest \<Rightarrow> (s, w)
         | [] \<Rightarrow>
             (let (license_node, w) = new_BNode w;
                  w = add w (license_node, RDF_type, spdx_namespace ''ExtractedLicensingInfo'');
                  w = add w (license_node, spdx_namespace ''licenseId'', Literal (ext_identifier lic));
                  w = add w (license_node, spdx_namespace ''extractedText'', Literal (ext_text lic));
                  w = (case ext_full_name lic of
                         None \<Rightarrow> w
                       | Some n \<Rightarrow> add w (license_node, spdx_namespace ''licenseName'',
                                          to_special_value n));
                  w = fold (\<lambda>ref w. add w (license_node, RDFS_seeAlso, URIRef ref))
                        (ext_cross_ref lic) w;
                  w = (case ext_comment lic of
                         None \<Rightarrow> w
                       | Some c \<Rightarrow> add w (license_node, RDFS_comment, Literal c))
              in (license_node, w)))"

text \<open>\<^verbatim>\<open>s.rstrip('+')\<close>: the string without its trailing plus signs.\<close>

definition rstrip_plus :: "string \<Rightarrow> string" where
  "rstrip_plus s = rev (dropWhile (\<lambda>c. c = CHR ''+'') (rev s))"

text \<open>
  \<^verbatim>\<open>create_license_helper\<close>. \<^verbatim>\<open>config.LICENSE_MAP\<close>, the dictionary loaded from the
  license list, and \<^verbatim>\<open>self.document.extracted_licenses\<close> are parameters.
\<close>

definition create_license_helper ::
  "(string \<rightharpoonup> string) \<Rightarrow> extracted_license list \<Rightarrow> writer \<Rightarrow> single_license \<Rightarrow>
     (exn + node) \<times> writer" where
  "create_license_helper LICENSE_MAP extracted_licenses w lic =
     (case lic of
        ExtractedLicense e \<Rightarrow> (let (n, w) = create_extracted_license w e in (Inr n, w))
      | License l \<Rightarrow>
          if LICENSE_MAP (rstrip_plus (lic_identifier l)) \<noteq> None then (Inr (URIRef (lic_url l)), w)
          else (case filter (\<lambda>x. ext_identifier x = lic_identifier l) extracted_licenses of
                  m # ms \<Rightarrow> (let (n, w) = create_extracted_license w m in (Inr n, w))
                | [] \<Rightarrow>
                    (Inl (InvalidDocumentError
                            (''Missing extracted license: '' @ lic_identifier l)), w)))"

text \<open>
  \<^verbatim>\<open>licenses_from_tree_helper\<close> adds to the Python set \<^verbatim>\<open>licenses\<close>, kept here as a
  list without repetition.
\<close>

definition set_add :: "node list \<Rightarrow> node \<Rightarrow> node list" where
  "set_add xs n = (if n \<in> set xs then xs else xs @ [n])"

fun licenses_from_tree_helper ::
  "(string \<rightharpoonup> string) \<Rightarrow> extracted_license list \<Rightarrow> writer \<Rightarrow> license \<Rightarrow> node list \<Rightarrow>
     (exn + node list) \<times> writer" where
  "licenses_from_tree_helper LM exl w (Single lic) licenses =
     (case create_license_helper LM exl w lic of
        (Inl e, w1) \<Rightarrow> (Inl e, w1)
      | (Inr n, w1) \<Rightarrow> (Inr (set_add licenses n), w1))"
| "licenses_from_tree_helper LM exl w (LicenseConjunction license_1 license_2) licenses =
     (case licenses_from_tree_helper LM exl w license_1 licenses of
        (Inl e, w1) \<Rightarrow> (Inl e, w1)
      | (Inr licenses1, w1) \<Rightarrow> licenses_from_tree_helper LM exl w1 license_2 licenses1)"
| "licenses_from_tree_helper LM exl w (LicenseDisjunction license_1 license_2) licenses =
     (case licenses_from_tree_helper LM exl w license_1 licenses of
        (Inl e, w1) \<Rightarrow> (Inl e, w1)
      | (Inr licenses1, w1) \<Rightarrow> licenses_from_tree_helper LM exl w1 license_2 licenses1)"

definition licenses_from_tree ::
  "(string \<rightharpoonup> string) \<Rightarrow> extracted_license list \<Rightarrow> writer \<Rightarrow> license \<Rightarrow>
     (exn + node list) \<times> writer" where
  "licenses_from_tree LM exl w tree = licenses_from_tree_helper LM exl w tree []"

definition create_conjunction_node ::
  "(string \<rightharpoonup> string) \<Rightarrow> extracted_license list \<Rightarrow> writer \<Rightarrow> license \<Rightarrow>
     (exn + node) \<times> writer" where
  "create_conjunction_node LM exl w conjunction =
     (let (node, w) = new_BNode w;
          w = add w (node, RDF_type, spdx_namespace ''ConjunctiveLicenseSet'')
      in case licenses_from_tree LM exl w conjunction of
           (Inl e, w1) \<Rightarrow> (Inl e, w1)
         | (Inr licenses, w1) \<Rightarrow>
             (Inr node, fold (\<lambda>lic w. add w (node, spdx_namespace ''member'', lic)) licenses w1))"

definition create_disjunction_node ::
  "(string \<rightharpoonup> string) \<Rightarrow> extracted_license list \<Rightarrow> writer \<Rightarrow> license \<Rightarrow>
     (exn + node) \<times> writer" where
  "create_disjunction_node LM exl w disjunction =
     (let (node, w) = new_BNode w;
          w = add w (node, RDF_type, spdx_namespace ''DisjunctiveLicenseSet'')
      in case licenses_from_tree LM exl w disjunction of
           (Inl e, w1) \<Rightarrow> (Inl e, w1)
         | (Inr licenses, w1) \<Rightarrow>
             (Inr node, fold (\<lambda>lic w. add w (node, spdx_namespace ''member'', lic)) licenses w1))"

fun create_license_node ::
  "(string \<rightharpoonup> string) \<Rightarrow> extracted_license list \<Rightarrow> writer \<Rightarrow> license \<Rightarrow>
     (exn + node) \<times> writer" where
  "create_license_node LM exl w (LicenseConjunction l1 l2) =
     create_conjunction_node LM exl w (LicenseConjunction l1 l2)"
| "create_license_node LM exl w (LicenseDisjunction l1 l2) =
     create_disjunction_node LM exl w (LicenseDisjunction l1 l2)"
| "create_license_node LM exl w (Single lic) = create_license_helper LM exl w lic"

text \<open>
  \<^verbatim>\<open>license_or_special\<close>. A value that is neither a sentinel nor a license reaches
  \<^verbatim>\<open>create_license_helper\<close>, where reading its \<^verbatim>\<open>identifier\<close> fails.
\<close>

fun license_or_special ::
  "(string \<rightharpoonup> string) \<Rightarrow> extracted_license list \<Rightarrow> writer \<Rightarrow> pyval \<Rightarrow>
     (exn + node) \<times> writer" where
  "license_or_special LM exl w (PyText NoAssert) = (Inr (spdx_namespace ''noassertion''), w)"
| "license_or_special LM exl w (PyText SPDXNone) = (Inr (spdx_namespace ''none''), w)"
| "license_or_special LM exl w (PyLicense lic) = create_license_node LM exl w lic"
| "license_or_special LM exl w _ = (Inl AttributeError, w)"

subsection \<open>FileWriter\<close>

datatype file_type = SOURCE | OTHER | BINARY | ARCHIVE

fun FILE_TYPES :: "file_type \<Rightarrow> string" where
  "FILE_TYPES SOURCE = ''fileType_source''"
| "FILE_TYPES OTHER = ''fileType_other''"
| "FILE_TYPES BINARY = ''fileType_binary''"
| "FILE_TYPES ARCHIVE = ''fileType_archive''"

text \<open>
  A file of the document as the writer reads it: the attributes of \<^verbatim>\<open>spdx.file.File\<close>
  that \<^verbatim>\<open>create_file_node\<close> and the dependency pass use, for a file whose identifier,
  name, checksum and copyright text are present.
\<close>

record doc_file =
  df_spdx_id :: string
  df_name :: string
  df_comment :: "string option"
  df_type :: "file_type option"
  df_chk_sum :: algorithm
  df_conc_lics :: pyval
  df_licenses_in_file :: "pyval list"
  df_license_comment :: "string option"
  df_copyright :: pytext
  df_notice :: "string option"
  df_contributors :: "string list"
  df_dependencies :: "string list"

text \<open>
  The loop over \<^verbatim>\<open>map(self.license_or_special, doc_file.licenses_in_file)\<close>: the map is
  lazy, so each node is made when the loop reaches it.
\<close>

fun license_info_loop ::
  "(string \<rightharpoonup> string) \<Rightarrow> extracted_license list \<Rightarrow> node \<Rightarrow> pyval list \<Rightarrow> writer \<Rightarrow>
     (exn + unit) \<times> writer" where
  "license_info_loop LM exl file_node [] w = (Inr (), w)"
| "license_info_loop LM exl file_node (x # xs) w =
     (case license_or_special LM exl w x of
        (Inl e, w1) \<Rightarrow> (Inl e, w1)
      | (Inr lic, w1) \<Rightarrow>
          license_info_loop LM exl file_node xs
            (add w1 (file_node, spdx_namespace ''licenseInfoInFile'', lic)))"

definition create_file_node ::
  "(string \<rightharpoonup> string) \<Rightarrow> extracted_license list \<Rightarrow> writer \<Rightarrow> doc_file \<Rightarrow>
     (exn + node) \<times> writer" where
  "create_file_node LM exl w f =
     (let file_node = URIRef (''http://www.spdx.org/files#'' @ df_spdx_id f);
          w = add w (file_node, RDF_type, spdx_namespace ''File'');
          w = add w (file_node, spdx_namespace ''fileName'', Literal (df_name f));
          w = (case df_comment f of
                 None \<Rightarrow> w
               | Some c \<Rightarrow> add w (file_node, RDFS_comment, Literal c));
          w = (case df_type f of
                 None \<Rightarrow> w
               | Some t \<Rightarrow> add w (file_node, spdx_namespace ''fileType'',
                                  spdx_namespace (FILE_TYPES t)));
          (chk, w) = create_checksum_node w (df_chk_sum f);
          w = add w (file_node, spdx_namespace ''checksum'', chk)
      in case license_or_special LM exl w (df_conc_lics f) of
           (Inl e, w1) \<Rightarrow> (Inl e, w1)
         | (Inr conc_lic_node, w1) \<Rightarrow>
             (let w = add w1 (file_node, spdx_namespace ''licenseConcluded'', conc_lic_node)
              in case license_info_loop LM exl file_node (df_licenses_in_file f) w of
                   (Inl e, w2) \<Rightarrow> (Inl e, w2)
                 | (Inr _, w2) \<Rightarrow>
                     (let w = (case df_license_comment f of
                                 None \<Rightarrow> w2
                               | Some c \<Rightarrow> add w2 (file_node, spdx_namespace ''licenseComments'',
                                                    Literal c));
                          w = add w (file_node, spdx_namespace ''copyrightText'',
                                     to_special_value (df_copyright f));
                          w = (case df_notice f of
                                 None \<Rightarrow> w
                               | Some n \<Rightarrow> add w (file_node, spdx_namespace ''noticeText'', PyStr n));
                          w = fold (\<lambda>c w. add w (file_node, spdx_namespace ''fileContributor'',
                                                  Literal c))
                                (df_contributors f) w
                      in (Inr file_node, w))))"

text \<open>
  The part of \<^verbatim>\<open>Writer.write\<close> that adds the files: the file nodes come from the lazy
  \<^verbatim>\<open>self.files()\<close>, and each is linked to the document node as soon as it is made.
\<close>

fun write_files ::
  "(string \<rightharpoonup> string) \<Rightarrow> extracted_license list \<Rightarrow> node \<Rightarrow> doc_file list \<Rightarrow> writer \<Rightarrow>
     (exn + unit) \<times> writer" where
  "write_files LM exl doc_node [] w = (Inr (), w)"
| "write_files LM exl doc_node (f # fs) w =
     (case create_file_node LM exl w f of
        (Inl e, w1) \<Rightarrow> (Inl e, w1)
      | (Inr file_node, w1) \<Rightarrow>
          write_files LM exl doc_node fs
            (add w1 (doc_node, spdx_namespace ''referencesFile'', file_node)))"

definition dependency_warning :: "string \<Rightarrow> string \<Rightarrow> string" where
  "dependency_warning name dependency =
     ''Warning could not resolve file dependency '' @ name @ '' -> '' @ dependency"

text \<open>The body of the loop over \<^verbatim>\<open>doc_file.dependencies\<close>, and the loop.\<close>

definition add_dependency :: "node \<Rightarrow> string \<Rightarrow> string \<Rightarrow> writer \<Rightarrow> writer" where
  "add_dependency subject_node name dependency w =
     (let dep_triples = triples (w_graph w)
                          (None, Some (spdx_namespace ''fileName''), Some (Literal dependency))
      in case dep_triples of
           [(dep_node, p, obj)] \<Rightarrow>
             add w (subject_node, spdx_namespace ''fileDependency'', dep_node)
         | _ \<Rightarrow> w\<lparr>w_printed := w_printed w @ [dependency_warning name dependency]\<rparr>)"

definition add_file_dependencies_helper :: "writer \<Rightarrow> doc_file \<Rightarrow> (exn + unit) \<times> writer" where
  "add_file_dependencies_helper w f =
     (let subj_triples = triples (w_graph w)
                           (None, Some (spdx_namespace ''fileName''), Some (Literal (df_name f)))
      in case subj_triples of
           [(subject_node, p, obj)] \<Rightarrow>
             (Inr (), fold (add_dependency subject_node (df_name f)) (df_dependencies f) w)
         | _ \<Rightarrow>
             (Inl (InvalidDocumentError (''Could not find dependency subject '' @ df_name f)), w))"

fun add_file_dependencies :: "writer \<Rightarrow> doc_file list \<Rightarrow> (exn + unit) \<times> writer" where
  "add_file_dependencies w [] = (Inr (), w)"
| "add_file_dependencies w (f # fs) =
     (case add_file_dependencies_helper w f of
        (Inl e, w1) \<Rightarrow> (Inl e, w1)
      | (Inr _, w1) \<Rightarrow> add_file_dependencies w1 fs)"

text \<open>
  In the words of the specification: a dependency name is resolved in a graph when
  exactly one \<^verbatim>\<open>fileName\<close> triple carries it; the node it resolves to is the subject of
  that triple.
\<close>

definition name_triples :: "graph \<Rightarrow> string \<Rightarrow> triple list" where
  "name_triples g name =
     triples g (None, Some (spdx_namespace ''fileName''), Some (Literal name))"

definition resolved :: "graph \<Rightarrow> string \<Rightarrow> bool" where
  "resolved g name = (length (name_triples g name) = 1)"

section \<open>The writer's results in the words of the specification\<close>

text \<open>The leaves of a license expression, left to right.\<close>

fun leaf_licenses :: "license \<Rightarrow> single_license list" where
  "leaf_licenses (Single lic) = [lic]"
| "leaf_licenses (LicenseConjunction license_1 license_2) =
     leaf_licenses license_1 @ leaf_licenses license_2"
| "leaf_licenses (LicenseDisjunction license_1 license_2) =
     leaf_licenses license_1 @ leaf_licenses license_2"

text \<open>Every leaf of the expression is a license of the catalog.\<close>

definition catalog_leaves :: "(string \<rightharpoonup> string) \<Rightarrow> license \<Rightarrow> bool" where
  "catalog_leaves LM t =
     (\<forall>sl \<in> set (leaf_licenses t).
        \<exists>l. sl = License l \<and> LM (rstrip_plus (lic_identifier l)) \<noteq> None)"

text \<open>
  The dependency edges of a file whose node is \<^verbatim>\<open>s\<close>: one for every dependency name
  that is resolved in the graph \<^verbatim>\<open>g\<close>, none for the others; the warnings of a file:
  one for every dependency name that is not resolved.
\<close>

definition dependency_edges :: "graph \<Rightarrow> node \<Rightarrow> string list \<Rightarrow> triple list" where
  "dependency_edges g s ds =
     concat (map (\<lambda>d. case name_triples g d of
                          [(n, p, obj)] \<Rightarrow> [(s, spdx_namespace ''fileDependency'', n)]
                        | _ \<Rightarrow> []) ds)"

definition file_dependency_edges :: "graph \<Rightarrow> doc_file \<Rightarrow> triple list" where
  "file_dependency_edges g f =
     (case name_triples g (df_name f) of
        [(s, p, obj)] \<Rightarrow> dependency_edges g s (df_dependencies f)
      | _ \<Rightarrow> [])"

definition unresolved_warnings :: "graph \<Rightarrow> doc_file \<Rightarrow> string list" where
  "unresolved_warnings g f =
     map (dependency_warning (df_name f)) (filter (\<lambda>d. \<not> resolved g d) (df_dependencies f))"

section \<open>Example data\<close>

definition example_license_map :: "string \<rightharpoonup> string" where
  "example_license_map =
     [''MIT'' \<mapsto> ''MIT License'', ''Apache-2.0'' \<mapsto> ''Apache License 2.0'',
      ''BSD-3-Clause'' \<mapsto> ''BSD 3-Clause New or Revised License'']"

definition MIT :: catalog_license where
  "MIT = \<lparr>lic_full_name = ''MIT License'', lic_identifier = ''MIT'',
          lic_url = ''http://spdx.org/licenses/MIT''\<rparr>"

definition Apache_2_0 :: catalog_license where
  "Apache_2_0 = \<lparr>lic_full_name = ''Apache License 2.0'', lic_identifier = ''Apache-2.0'',
                 lic_url = ''http://spdx.org/licenses/Apache-2.0''\<rparr>"

definition BSD_3_Clause :: catalog_license where
  "BSD_3_Clause = \<lparr>lic_full_name = ''BSD 3-Clause New or Revised License'',
                   lic_identifier = ''BSD-3-Clause'',
                   lic_url = ''http://spdx.org/licenses/BSD-3-Clause''\<rparr>"

text \<open>The expression \<^verbatim>\<open>MIT AND (Apache-2.0 OR BSD-3-Clause)\<close>.\<close>

definition MIT_and_Apache_or_BSD :: license where
  "MIT_and_Apache_or_BSD =
     LicenseConjunction (Single (License MIT))
       (LicenseDisjunction (Single (License Apache_2_0)) (Single (License BSD_3_Clause)))"

definition doc_node :: node where
  "doc_node = URIRef ''http://www.spdx.org/tools#SPDXRef-DOCUMENT''"

text \<open>
  Three files: \<^verbatim>\<open>./a.py\<close> depends on \<^verbatim>\<open>./missing.py\<close> and on \<^verbatim>\<open>./b.py\<close>; the third
  file has the name of the first and another identifier.
\<close>

definition file_a :: doc_file where
  "file_a = \<lparr>df_spdx_id = ''SPDXRef-1'', df_name = ''./a.py'', df_comment = None,
     df_type = None, df_chk_sum = \<lparr>alg_identifier = ''SHA1'', alg_value = ''aa''\<rparr>,
     df_conc_lics = PyText NoAssert, df_licenses_in_file = [PyText SPDXNone],
     df_license_comment = None, df_copyright = SPDXNone, df_notice = None,
     df_contributors = [], df_dependencies = [''./missing.py'', ''./b.py'']\<rparr>"

definition file_b :: doc_file where
  "file_b = \<lparr>df_spdx_id = ''SPDXRef-2'', df_name = ''./b.py'', df_comment = None,
     df_type = None, df_chk_sum = \<lparr>alg_identifier = ''SHA1'', alg_value = ''bb''\<rparr>,
     df_conc_lics = PyText NoAssert, df_licenses_in_file = [PyText SPDXNone],
     df_license_comment = None, df_copyright = SPDXNone, df_notice = None,
     df_contributors = [], df_dependencies = []\<rparr>"

definition file_a_again :: doc_file where
  "file_a_again = \<lparr>df_spdx_id = ''SPDXRef-3'', df_name = ''./a.py'', df_comment = None,
     df_type = None, df_chk_sum = \<lparr>alg_identifier = ''SHA1'', alg_value = ''cc''\<rparr>,
     df_conc_lics = PyText NoAssert, df_licenses_in_file = [PyText SPDXNone],
     df_license_comment = None, df_copyright = SPDXNone, df_notice = None,
     df_contributors = [], df_dependencies = []\<rparr>"

text \<open>A document with a package and one file, for the SPDXID lines.\<close>

definition document_with_file :: document where
  "document_with_file = empty_document\<lparr>doc_package :=
     Some \<lparr>pkg_name = ''demo'', pkg_check_sum = None, pkg_source_info = None,
           pkg_verif_code = None,
           pkg_verif_exc_files = [], pkg_license_comment = None, pkg_cr_text = None,
           pkg_summary = None, pkg_description = None,
           pkg_files = [\<lparr>file_name = ''./a.py'', file_spdx_id = None, file_chk_sum = None,
                         file_license_comment = None, file_copyright = None,
                         file_comment = None, file_notice = None\<rparr>]\<rparr>\<rparr>"

section \<open>A parse pass of the tag-value parser (tagvalue.py)\<close>

text \<open>
  Modelled from the spec: \<^verbatim>\<open>create_package\<close> is defined in tagvaluebuilders.py, which is
  not among the sources. The specification (4.3) says that on an attribute that belongs
  to a new sub-entity "the Builder creates and appends that sub-entity", and (3) that the
  package name is set at most once; the production \<^verbatim>\<open>p_package_name\<close> expects a
  CardinalityError. The builder records that the package exists, which is what
  \<^verbatim>\<open>assert_package_exists\<close> reads.
\<close>

definition create_package :: "builder \<Rightarrow> document \<Rightarrow> string \<Rightarrow> outcome" where
  "create_package b doc name =
     (if \<not> package_set b then
        (Inr RetTrue, b\<lparr>package_set := True\<rparr>,
         doc\<lparr>doc_package :=
           Some \<lparr>pkg_name = name, pkg_check_sum = None, pkg_source_info = None,
                 pkg_verif_code = None, pkg_verif_exc_files = [], pkg_license_comment = None,
                 pkg_cr_text = None, pkg_summary = None, pkg_description = None,
                 pkg_files = []\<rparr>\<rparr>)
      else (Inl (CardinalityError ''Package::Name''), b, doc))"

text \<open>
  \<^verbatim>\<open>Builder.reset\<close> calls \<^verbatim>\<open>reset_creation_info\<close>, \<^verbatim>\<open>reset_document\<close>,
  \<^verbatim>\<open>reset_package\<close>, \<^verbatim>\<open>reset_file_stat\<close>, \<^verbatim>\<open>reset_reviews\<close> and
  \<^verbatim>\<open>reset_annotations\<close>. Modelled from the spec: \<^verbatim>\<open>reset_package\<close> and
  \<^verbatim>\<open>reset_file_stat\<close> are defined in tagvaluebuilders.py, which is not among the
  sources; by the specification (4.4) the flags and focus pointers are fully reset
  between passes, so each clears the flags of its part of the builder. The snippet
  flags are not touched by \<^verbatim>\<open>Builder.reset\<close>.
\<close>

definition Builder_reset :: "builder \<Rightarrow> builder" where
  "Builder_reset b =
     (reset_document b)\<lparr>package_set := False, package_chk_sum_set := False,
        package_source_info_set := False, package_verif_set := False,
        package_license_comment_set := False, package_cr_text_set := False,
        package_summary_set := False, package_desc_set := False,
        file_spdx_id_set := False, file_chksum_set := False,
        file_license_comment_set := False, file_copytext_set := False,
        file_comment_set := False, file_notice_set := False\<rparr>"

text \<open>
  Three of the attributes of the grammar, with the value token of the line, and what
  the parser logs: the message template with its arguments.
\<close>

datatype attrib = PKG_NAME string | SPDX_ID string | PKG_CHKSUM string

datatype log_entry =
    MORE_THAN_ONE string nat
  | A_BEFORE_B string string nat
  | Logged string

record parser =
  p_builder :: builder
  p_document :: document
  p_error :: bool
  p_logged :: "log_entry list"

definition new_parser :: parser where
  "new_parser = \<lparr>p_builder = reset, p_document = empty_document, p_error = False,
     p_logged = []\<rparr>"

definition more_than_one_error :: "parser \<Rightarrow> string \<Rightarrow> nat \<Rightarrow> parser" where
  "more_than_one_error P tag line =
     P\<lparr>p_error := True, p_logged := p_logged P @ [MORE_THAN_ONE tag line]\<rparr>"

definition order_error :: "parser \<Rightarrow> string \<Rightarrow> string \<Rightarrow> nat \<Rightarrow> parser" where
  "order_error P first_tag second_tag line =
     P\<lparr>p_error := True, p_logged := p_logged P @ [A_BEFORE_B first_tag second_tag line]\<rparr>"

text \<open>
  The productions. Each gives the exception that leaves it, if any, and the parser as
  the production left it. \<^verbatim>\<open>p_package_name\<close> catches CardinalityError,
  \<^verbatim>\<open>p_pkg_chksum_1\<close> catches OrderError and CardinalityError, and the production for
  SPDXID catches nothing.
\<close>

definition p_package_name :: "parser \<Rightarrow> nat \<Rightarrow> string \<Rightarrow> exn option \<times> parser" where
  "p_package_name P line v =
     (case create_package (p_builder P) (p_document P) v of
        (Inl (CardinalityError m), b, d) \<Rightarrow>
          (None, more_than_one_error (P\<lparr>p_builder := b, p_document := d\<rparr>) ''PackageName'' line)
      | (Inl e, b, d) \<Rightarrow> (Some e, P\<lparr>p_builder := b, p_document := d\<rparr>)
      | (Inr r, b, d) \<Rightarrow> (None, P\<lparr>p_builder := b, p_document := d\<rparr>))"

definition p_pkg_chksum_1 :: "parser \<Rightarrow> nat \<Rightarrow> string \<Rightarrow> exn option \<times> parser" where
  "p_pkg_chksum_1 P line v =
     (case set_pkg_chk_sum (p_builder P) (p_document P) v of
        (Inl (OrderError m), b, d) \<Rightarrow>
          (None, order_error (P\<lparr>p_builder := b, p_document := d\<rparr>)
                   ''PackageChecksum'' ''PackageFileName'' line)
      | (Inl (CardinalityError m), b, d) \<Rightarrow>
          (None, more_than_one_error (P\<lparr>p_builder := b, p_document := d\<rparr>)
                   ''PackageChecksum'' line)
      | (Inl e, b, d) \<Rightarrow> (Some e, P\<lparr>p_builder := b, p_document := d\<rparr>)
      | (Inr r, b, d) \<Rightarrow> (None, P\<lparr>p_builder := b, p_document := d\<rparr>))"

definition p_spdx_id_production ::
  "(string \<Rightarrow> bool) \<Rightarrow> (string \<Rightarrow> bool) \<Rightarrow> parser \<Rightarrow> string \<Rightarrow> exn option \<times> parser" where
  "p_spdx_id_production vd vf P v =
     (case p_spdx_id vd vf (p_builder P) (p_document P) v of
        (Inl e, b, d) \<Rightarrow> (Some e, P\<lparr>p_builder := b, p_document := d\<rparr>)
      | (Inr r, b, d) \<Rightarrow> (None, P\<lparr>p_builder := b, p_document := d\<rparr>))"

fun reduce ::
  "(string \<Rightarrow> bool) \<Rightarrow> (string \<Rightarrow> bool) \<Rightarrow> parser \<Rightarrow> nat \<times> attrib \<Rightarrow> exn option \<times> parser" where
  "reduce vd vf P (line, PKG_NAME v) = p_package_name P line v"
| "reduce vd vf P (line, SPDX_ID v) = p_spdx_id_production vd vf P v"
| "reduce vd vf P (line, PKG_CHKSUM v) = p_pkg_chksum_1 P line v"

text \<open>
  \<^verbatim>\<open>yacc.parse\<close> on the attributes of the text, each with its line number: the
  productions are reduced in order, and an exception that leaves a production leaves
  \<^verbatim>\<open>yacc.parse\<close>.
\<close>

fun yacc_parse ::
  "(string \<Rightarrow> bool) \<Rightarrow> (string \<Rightarrow> bool) \<Rightarrow> (nat \<times> attrib) list \<Rightarrow> parser \<Rightarrow>
     exn option \<times> parser" where
  "yacc_parse vd vf [] P = (None, P)"
| "yacc_parse vd vf (a # as) P =
     (case reduce vd vf P a of
        (Some e, P1) \<Rightarrow> (Some e, P1)
      | (None, P1) \<Rightarrow> yacc_parse vd vf as P1)"

text \<open>
  \<^verbatim>\<open>Parser.parse\<close>: a new document, the pass, and only then the reset of the builder
  and the validation of the document. \<^verbatim>\<open>Document.validate\<close> is a parameter. When an
  exception leaves the pass, it leaves \<^verbatim>\<open>parse\<close> before the reset.
\<close>

definition parse ::
  "(string \<Rightarrow> bool) \<Rightarrow> (string \<Rightarrow> bool) \<Rightarrow> (document \<Rightarrow> string list) \<Rightarrow>
     (nat \<times> attrib) list \<Rightarrow> parser \<Rightarrow> (exn + document \<times> bool) \<times> parser" where
  "parse vd vf validate_document text P =
     (let P = P\<lparr>p_document := empty_document, p_error := False\<rparr>
      in case yacc_parse vd vf text P of
           (Some e, P1) \<Rightarrow> (Inl e, P1)
         | (None, P1) \<Rightarrow>
             (let P2 = P1\<lparr>p_builder := Builder_reset (p_builder P1)\<rparr>;
                  validation_messages = validate_document (p_document P2);
                  P3 = (if \<not> p_error P2 \<and> validation_messages \<noteq> []
                        then P2\<lparr>p_logged := p_logged P2 @ map Logged validation_messages,
                                p_error := True\<rparr>
                        else P2)
              in (Inr (p_document P3, p_error P3), P3)))"

section \<open>Verification code: proofs\<close>

lemma fold_append_items:
  "fold (\<lambda>item tl. if P item then tl @ [f item] else tl) xs acc = acc @ map f (filter P xs)"
  by (induction xs arbitrary: acc) simp_all

lemma fold_append_concat: "fold (\<lambda>item fl. fl @ item) xs acc = acc @ concat xs"
  by (induction xs arbitrary: acc) simp_all

lemma verification_code_refines:
  "get_package_verification_code h g out rs = verification_code_spec h g out rs"
  by (simp add: get_package_verification_code_def verification_code_spec_def
      fold_append_items fold_append_concat filter_map comp_def)

lemma sort_mset_cong: "mset xs = mset ys \<Longrightarrow> sort xs = sort (ys :: string list)"
  by (rule properties_for_sort) simp_all

text \<open>
  Claim C3: the verification code computed by the source is the SHA1 hex digest of the
  concatenation of the ascending-sorted checksums of the files that are not skipped,
  and therefore any permutation of the scan results gives the same code.
\<close>

theorem verification_code_sorted_hash_perm_invariant:
  "get_package_verification_code h g out rs = verification_code_spec h g out rs \<and>
   (mset rs = mset rs' \<longrightarrow>
      get_package_verification_code h g out rs = get_package_verification_code h g out rs')"
proof (intro conjI impI)
  show "get_package_verification_code h g out rs = verification_code_spec h g out rs"
    by (rule verification_code_refines)
next
  assume p: "mset rs = mset rs'"
  let ?sel = "\<lambda>xs. map g (filter (\<lambda>p. \<not> should_skip_file p out) (map FileName xs))"
  have "mset (?sel rs) = mset (?sel rs')"
    using p by simp
  then have "sort (?sel rs) = sort (?sel rs')"
    by (rule sort_mset_cong)
  then show "get_package_verification_code h g out rs = get_package_verification_code h g out rs'"
    by (simp add: verification_code_refines verification_code_spec_def)
qed

theorem verification_code_sorted_hash_perm_invariant_witness:
  "mset [\<lparr>FileName = ''src/b.py'', SPDXID = ''MIT''\<rparr>, \<lparr>FileName = ''LICENSE'', SPDXID = ''MIT''\<rparr>,
         \<lparr>FileName = ''src/a.py'', SPDXID = ''MIT''\<rparr>]
   = mset [\<lparr>FileName = ''src/a.py'', SPDXID = ''MIT''\<rparr>, \<lparr>FileName = ''src/b.py'', SPDXID = ''MIT''\<rparr>,
         \<lparr>FileName = ''LICENSE'', SPDXID = ''MIT''\<rparr>] \<and>
   get_package_verification_code (\<lambda>s. s) (\<lambda>p. p) ''outspdx''
     [\<lparr>FileName = ''src/b.py'', SPDXID = ''MIT''\<rparr>, \<lparr>FileName = ''LICENSE'', SPDXID = ''MIT''\<rparr>,
      \<lparr>FileName = ''src/a.py'', SPDXID = ''MIT''\<rparr>]
   = get_package_verification_code (\<lambda>s. s) (\<lambda>p. p) ''outspdx''
     [\<lparr>FileName = ''src/a.py'', SPDXID = ''MIT''\<rparr>, \<lparr>FileName = ''src/b.py'', SPDXID = ''MIT''\<rparr>,
      \<lparr>FileName = ''LICENSE'', SPDXID = ''MIT''\<rparr>]"
proof -
  have m: "mset [\<lparr>FileName = ''src/b.py'', SPDXID = ''MIT''\<rparr>, \<lparr>FileName = ''LICENSE'', SPDXID = ''MIT''\<rparr>,
         \<lparr>FileName = ''src/a.py'', SPDXID = ''MIT''\<rparr>]
   = mset [\<lparr>FileName = ''src/a.py'', SPDXID = ''MIT''\<rparr>, \<lparr>FileName = ''src/b.py'', SPDXID = ''MIT''\<rparr>,
         \<lparr>FileName = ''LICENSE'', SPDXID = ''MIT''\<rparr>]"
    by (simp add: add.commute)
  from m verification_code_sorted_hash_perm_invariant
    [of "\<lambda>s. s" "\<lambda>p. p" "''outspdx''"
        "[\<lparr>FileName = ''src/b.py'', SPDXID = ''MIT''\<rparr>, \<lparr>FileName = ''LICENSE'', SPDXID = ''MIT''\<rparr>,
          \<lparr>FileName = ''src/a.py'', SPDXID = ''MIT''\<rparr>]"
        "[\<lparr>FileName = ''src/a.py'', SPDXID = ''MIT''\<rparr>, \<lparr>FileName = ''src/b.py'', SPDXID = ''MIT''\<rparr>,
          \<lparr>FileName = ''LICENSE'', SPDXID = ''MIT''\<rparr>]"]
  show ?thesis by blast
qed

section \<open>Builder: proofs\<close>

lemma pkg_setter_without_package:
  "\<not> package_set b \<Longrightarrow> run_pkg_setter op b doc v = (Inl (OrderError ''Package''), b, doc)"
  by (cases op)
     (simp_all add: set_pkg_chk_sum_def set_pkg_source_info_def set_pkg_verif_code_def
        set_pkg_excl_file_def set_pkg_license_comment_def set_pkg_cr_text_def
        set_pkg_summary_def set_pkg_desc_def assert_package_exists_def)

lemma file_setter_without_file:
  "\<not> (has_package doc \<and> has_file doc) \<Longrightarrow>
     \<exists>m. run_file_setter sft fop b doc v = (Inl (OrderError m), b, doc)"
  by (cases fop)
     (auto simp: set_file_chksum_def set_file_license_comment_def set_file_copyright_def
        set_file_comment_def set_file_notice_def)

lemma no_file_guard:
  "(case doc_package doc of None \<Rightarrow> True | Some p \<Rightarrow> pkg_files p = []) \<Longrightarrow>
     \<not> (has_package doc \<and> has_file doc)"
  by (auto simp: has_package_def has_file_def split: option.splits)

text \<open>
  When builder and document belong together, a package-level setter called while the
  document has no package, and in any state a file-level setter called while the
  document has no package or the package has no file, raises OrderError and leaves
  builder and document as they were.
\<close>

lemma setters_raise_OrderError_when_coherent:
  "(coherent b doc \<and> doc_package doc = None \<longrightarrow>
      run_pkg_setter op b doc v = (Inl (OrderError ''Package''), b, doc)) \<and>
   ((case doc_package doc of None \<Rightarrow> True | Some p \<Rightarrow> pkg_files p = []) \<longrightarrow>
      (\<exists>m. run_file_setter sft fop b doc v = (Inl (OrderError m), b, doc)) \<and>
      set_file_chksum b doc v = (Inl (OrderError ''File::CheckSum''), b, doc))"
proof (intro conjI impI)
  assume "coherent b doc \<and> doc_package doc = None"
  then have "\<not> package_set b" by (auto simp: coherent_def)
  then show "run_pkg_setter op b doc v = (Inl (OrderError ''Package''), b, doc)"
    by (rule pkg_setter_without_package)
next
  assume h: "case doc_package doc of None \<Rightarrow> True | Some p \<Rightarrow> pkg_files p = []"
  then have g: "\<not> (has_package doc \<and> has_file doc)" by (rule no_file_guard)
  then show "\<exists>m. run_file_setter sft fop b doc v = (Inl (OrderError m), b, doc)"
    by (rule file_setter_without_file)
  from g show "set_file_chksum b doc v = (Inl (OrderError ''File::CheckSum''), b, doc)"
    by (auto simp: set_file_chksum_def)
qed

lemmas parse_eval =
  parse_def yacc_parse.simps reduce.simps p_package_name_def p_pkg_chksum_1_def
  p_spdx_id_production_def p_spdx_id_def set_doc_spdx_id_def create_package_def
  set_pkg_chk_sum_def assert_package_exists_def assign_package_def
  more_than_one_error_def order_error_def Builder_reset_def reset_document_def
  new_parser_def reset_def empty_document_def Let_def


lemma set_doc_version_malformed:
  "VERS_STR_REGEX_match v = None \<Longrightarrow> \<not> doc_version_set b \<Longrightarrow>
     set_doc_version b doc v =
       (Inl (SPDXValueError ''Document::Version''), b\<lparr>doc_version_set := True\<rparr>, doc)"
  by (simp add: set_doc_version_def)

lemma set_doc_version_after_flag:
  "doc_version_set b \<Longrightarrow>
     set_doc_version b doc v = (Inl (CardinalityError ''Document::Version''), b, doc)"
  by (simp add: set_doc_version_def)

lemma set_snippet_lic_comment_again:
  "snippet_id_set b \<Longrightarrow> snippet_lic_comment_set b \<Longrightarrow>
     set_snippet_lic_comment b doc v = (Inr RetNone, b, doc)"
  by (simp add: set_snippet_lic_comment_def assert_snippet_exists_def)

lemma set_snippet_comment_again:
  "snippet_id_set b \<Longrightarrow> snippet_comment_set b \<Longrightarrow>
     set_snippet_comment b doc v = (Inl (CardinalityError ''Snippet::comment''), b, doc)"
  by (simp add: set_snippet_comment_def assert_snippet_exists_def)

text \<open>
  Claim C1, evaluated on a document with one snippet: the first call of
  \<^verbatim>\<open>set_snippet_lic_comment\<close> stores the comment; the second call on the same snippet
  returns \<^verbatim>\<open>None\<close> without raising (the stored comment is kept), where the claim asks
  for a CardinalityError. The sibling \<^verbatim>\<open>set_snippet_comment\<close> does raise it.
\<close>

theorem set_snippet_lic_comment_second_call_returns_silently:
  "(case set_snippet_lic_comment (reset\<lparr>snippet_id_set := True\<rparr>)
           (empty_document\<lparr>doc_snippet :=
              [\<lparr>snip_spdx_id = PyText (Str ''SPDXRef-Snippet''), snip_name = None,
                snip_comment = None, snip_copyright = PyNone, snip_license_comment = None,
                snip_from_file_spdxid = PyNone, snip_conc_lics = PyNone,
                licenses_in_snippet = []\<rparr>]\<rparr>) ''first'' of
      (r1, b1, d1) \<Rightarrow>
        r1 = Inr RetNone \<and>
        map snip_license_comment (doc_snippet d1) = [Some ''first''] \<and>
        set_snippet_lic_comment b1 d1 ''second'' = (Inr RetNone, b1, d1) \<and>
        (case set_snippet_comment b1 d1 ''c1'' of
           (r2, b2, d2) \<Rightarrow>
             r2 = Inr RetTrue \<and>
             set_snippet_comment b2 d2 ''c2'' =
               (Inl (CardinalityError ''Snippet::comment''), b2, d2)))"
  by (simp add: set_snippet_lic_comment_def set_snippet_comment_def assert_snippet_exists_def
      assign_snippet_def reset_def empty_document_def)

text \<open>
  Claim C2, evaluated from the reset builder: a malformed version raises
  SPDXValueError and leaves the flag \<^verbatim>\<open>doc_version_set\<close> raised, so the well-formed
  version that follows is refused with a CardinalityError and the document never gets a
  version; the same for the namespace. The claim asks for the flag to stay clear and
  for the second call to succeed, as it does for \<^verbatim>\<open>set_doc_spdx_id\<close>.
\<close>

theorem set_doc_version_flag_set_before_validation:
  "(case set_doc_version reset empty_document ''2.1'' of
      (r1, b1, d1) \<Rightarrow>
        r1 = Inl (SPDXValueError ''Document::Version'') \<and> doc_version_set b1 \<and>
        d1 = empty_document \<and>
        set_doc_version b1 d1 ''SPDX-2.1'' =
          (Inl (CardinalityError ''Document::Version''), b1, d1)) \<and>
   set_doc_version reset empty_document ''SPDX-2.1'' =
     (Inr RetTrue, reset\<lparr>doc_version_set := True\<rparr>,
      empty_document\<lparr>doc_version := Some \<lparr>major = 2, minor = 1\<rparr>\<rparr>) \<and>
   (case set_doc_namespace (\<lambda>ns. ns = ''http://spdx.org/spdxdocs/demo'') reset
           empty_document ''demo#'' of
      (r1, b1, d1) \<Rightarrow>
        r1 = Inl (SPDXValueError ''Document::Namespace'') \<and> doc_namespace_set b1 \<and>
        d1 = empty_document \<and>
        set_doc_namespace (\<lambda>ns. ns = ''http://spdx.org/spdxdocs/demo'') b1 d1
            ''http://spdx.org/spdxdocs/demo'' =
          (Inl (CardinalityError ''Document::Comment''), b1, d1)) \<and>
   (case set_doc_spdx_id (\<lambda>i. i = ''SPDXRef-DOCUMENT'') reset empty_document ''bogus'' of
      (r1, b1, d1) \<Rightarrow>
        r1 = Inl (SPDXValueError ''Document::SPDXID'') \<and> \<not> doc_spdx_id_set b1 \<and>
        fst (set_doc_spdx_id (\<lambda>i. i = ''SPDXRef-DOCUMENT'') b1 d1 ''SPDXRef-DOCUMENT'') =
          Inr RetTrue)"
  by (simp add: set_doc_version_def set_doc_namespace_def set_doc_spdx_id_def
      VERS_STR_REGEX_match_def is_digit_def int_of_digits_def reset_def empty_document_def)

section \<open>Snippet validation: proofs\<close>

lemma validate_each_license_None:
  "validate_each_license lics None =
     (if list_all is_license_or_special lics then Inr None else Inl TypeError)"
  by (induction lics) (simp_all add: add_message_def)

text \<open>
  Claim C10: with the default argument \<^verbatim>\<open>messages=None\<close>, \<^verbatim>\<open>Snippet.validate\<close>
  returns \<^verbatim>\<open>None\<close> when all five checks pass and raises TypeError otherwise; it never
  returns a list.
\<close>

theorem validate_default_messages_None_or_TypeError:
  "validate s None = (if snippet_checks_pass s then Inr None else Inl TypeError) \<and>
   validate s None \<noteq> Inr (Some ms)"
proof -
  have e: "validate s None = (if snippet_checks_pass s then Inr None else Inl TypeError)"
    by (simp add: validate_def validate_spdx_id_def validate_copyright_text_def
        validate_snip_from_file_spdxid_def validate_concluded_license_def
        validate_licenses_in_snippet_def validate_each_license_None
        snippet_checks_pass_def add_message_def)
  then show ?thesis by simp
qed

theorem validate_default_messages_None_or_TypeError_witness:
  "validate \<lparr>snip_spdx_id = PyText (Str ''SPDXRef-Snippet''), snip_name = None,
             snip_comment = None, snip_copyright = PyText NoAssert,
             snip_license_comment = None, snip_from_file_spdxid = PyText (Str ''SPDXRef-1''),
             snip_conc_lics = PyText NoAssert, licenses_in_snippet = [PyText SPDXNone]\<rparr> None
     = Inr None \<and>
   validate \<lparr>snip_spdx_id = PyNone, snip_name = None,
             snip_comment = None, snip_copyright = PyText NoAssert,
             snip_license_comment = None, snip_from_file_spdxid = PyText (Str ''SPDXRef-1''),
             snip_conc_lics = PyText NoAssert, licenses_in_snippet = [PyText SPDXNone]\<rparr> None
     = Inl TypeError"
  using validate_default_messages_None_or_TypeError
    [of "\<lparr>snip_spdx_id = PyText (Str ''SPDXRef-Snippet''), snip_name = None,
             snip_comment = None, snip_copyright = PyText NoAssert,
             snip_license_comment = None, snip_from_file_spdxid = PyText (Str ''SPDXRef-1''),
             snip_conc_lics = PyText NoAssert, licenses_in_snippet = [PyText SPDXNone]\<rparr>"]
    validate_default_messages_None_or_TypeError
    [of "\<lparr>snip_spdx_id = PyNone, snip_name = None,
             snip_comment = None, snip_copyright = PyText NoAssert,
             snip_license_comment = None, snip_from_file_spdxid = PyText (Str ''SPDXRef-1''),
             snip_conc_lics = PyText NoAssert, licenses_in_snippet = [PyText SPDXNone]\<rparr>"]
  by (simp add: snippet_checks_pass_def)

section \<open>SPDXID production: proofs\<close>

lemma assign_file_keeps_doc_id:
  "assign_file b doc upd r = (x, b1, d1) \<Longrightarrow> doc_spdx_id d1 = doc_spdx_id doc \<and> b1 = b"
  by (auto simp: assign_file_def split: option.splits list.splits)

lemma set_file_spdx_id_keeps_doc_id:
  "set_file_spdx_id vf b doc v = (x, b1, d1) \<Longrightarrow>
     doc_spdx_id d1 = doc_spdx_id doc \<and> doc_spdx_id_set b1 = doc_spdx_id_set b"
  by (auto simp: set_file_spdx_id_def split: if_splits dest!: assign_file_keeps_doc_id)

lemma file_spdx_id_lines_keep_doc_id:
  "file_spdx_id_lines vf ws b doc = (r, b2, d2) \<Longrightarrow>
     doc_spdx_id d2 = doc_spdx_id doc \<and> doc_spdx_id_set b2 = doc_spdx_id_set b"
proof (induction ws arbitrary: b doc)
  case Nil
  then show ?case by simp
next
  case (Cons w ws)
  obtain x b1 d1 where s: "set_file_spdx_id vf b doc w = (x, b1, d1)"
    by (cases "set_file_spdx_id vf b doc w") auto
  note k = set_file_spdx_id_keeps_doc_id [OF s]
  show ?case
  proof (cases x)
    case (Inl e)
    with Cons.prems s k show ?thesis by simp
  next
    case (Inr y)
    with Cons.prems s have "file_spdx_id_lines vf ws b1 d1 = (r, b2, d2)" by simp
    from Cons.IH [OF this] k show ?thesis by simp
  qed
qed

lemma spdx_id_lines_after_doc_id:
  "doc_spdx_id_set b \<Longrightarrow> spdx_id_lines vd vf ws b doc = file_spdx_id_lines vf ws b doc"
proof (induction ws arbitrary: b doc)
  case Nil
  then show ?case by simp
next
  case (Cons w ws)
  obtain x b1 d1 where s: "set_file_spdx_id vf b doc w = (x, b1, d1)"
    by (cases "set_file_spdx_id vf b doc w") auto
  from set_file_spdx_id_keeps_doc_id [OF s] Cons.prems have f: "doc_spdx_id_set b1" by simp
  show ?case
  proof (cases x)
    case (Inl e)
    with s Cons.prems show ?thesis by (simp add: p_spdx_id_def)
  next
    case (Inr y)
    with s Cons.prems Cons.IH [OF f] show ?thesis by (simp add: p_spdx_id_def)
  qed
qed

text \<open>
  Claim C9, evaluated. The first SPDXID line of the text is not a well-formed document
  identifier: \<^verbatim>\<open>set_doc_spdx_id\<close> raises SPDXValueError, the production for SPDXID has
  no \<^verbatim>\<open>try\<close>, and the exception leaves \<^verbatim>\<open>yacc.parse\<close> and \<^verbatim>\<open>parse\<close>. Nothing is
  logged, no document is returned, the document's identifier is not set and the
  well-formed SPDXID line that follows is never reduced. The claim asks for the SPDXID
  lines of every pass to be applied, the first to the document and the later ones to the
  current file.
\<close>

theorem parse_SPDXID_exception_leaves_the_pass:
  "p_spdx_id (\<lambda>i. i = ''SPDXRef-DOCUMENT'') (\<lambda>i. True) reset empty_document ''DOCUMENT'' =
     (Inl (SPDXValueError ''Document::SPDXID''), reset, empty_document) \<and>
   spdx_id_lines (\<lambda>i. i = ''SPDXRef-DOCUMENT'') (\<lambda>i. True)
       [''DOCUMENT'', ''SPDXRef-DOCUMENT''] reset empty_document =
     (Some (SPDXValueError ''Document::SPDXID''), reset, empty_document) \<and>
   parse (\<lambda>i. i = ''SPDXRef-DOCUMENT'') (\<lambda>i. True) (\<lambda>d. [])
       [(1, SPDX_ID ''DOCUMENT''), (2, SPDX_ID ''SPDXRef-DOCUMENT'')] new_parser =
     (Inl (SPDXValueError ''Document::SPDXID''), new_parser) \<and>
   doc_spdx_id (p_document new_parser) = None \<and> p_logged new_parser = []"
  by (simp add: parse_eval spdx_id_lines.simps)

text \<open>
  What the SPDXID production does when no exception leaves it: while the document
  identifier is not set, the line goes to \<^verbatim>\<open>set_doc_spdx_id\<close>; a well-formed first value
  becomes the document's identifier, every later SPDXID line goes to
  \<^verbatim>\<open>set_file_spdx_id\<close>, and the document's identifier stays the first value.
\<close>

lemma p_spdx_id_first_sets_document_later_go_to_file:
  assumes "\<not> doc_spdx_id_set b"
  shows "p_spdx_id vd vf b doc v = set_doc_spdx_id vd b doc v \<and>
         (vd v \<longrightarrow>
            (\<exists>b1 d1. p_spdx_id vd vf b doc v = (Inr RetTrue, b1, d1) \<and>
               doc_spdx_id d1 = Some v \<and> doc_spdx_id_set b1 \<and>
               spdx_id_lines vd vf (v # ws) b doc = file_spdx_id_lines vf ws b1 d1 \<and>
               (case spdx_id_lines vd vf (v # ws) b doc of
                  (r, b2, d2) \<Rightarrow> doc_spdx_id d2 = Some v \<and> doc_spdx_id_set b2))) \<and>
         (\<not> vd v \<longrightarrow>
            spdx_id_lines vd vf (v # ws) b doc =
              (Some (SPDXValueError ''Document::SPDXID''), b, doc))"
proof (intro conjI impI)
  show "p_spdx_id vd vf b doc v = set_doc_spdx_id vd b doc v"
    using assms by (simp add: p_spdx_id_def)
next
  assume ok: "vd v"
  let ?b1 = "b\<lparr>doc_spdx_id_set := True\<rparr>" and ?d1 = "doc\<lparr>doc_spdx_id := Some v\<rparr>"
  have p: "p_spdx_id vd vf b doc v = (Inr RetTrue, ?b1, ?d1)"
    using assms ok by (simp add: p_spdx_id_def set_doc_spdx_id_def)
  have l: "spdx_id_lines vd vf (v # ws) b doc = file_spdx_id_lines vf ws ?b1 ?d1"
    using p spdx_id_lines_after_doc_id [of ?b1 vd vf ws ?d1] by simp
  obtain r b2 d2 where f: "file_spdx_id_lines vf ws ?b1 ?d1 = (r, b2, d2)"
    by (cases "file_spdx_id_lines vf ws ?b1 ?d1") auto
  from file_spdx_id_lines_keep_doc_id [OF f]
  have k: "doc_spdx_id d2 = Some v \<and> doc_spdx_id_set b2" by simp
  show "\<exists>b1 d1. p_spdx_id vd vf b doc v = (Inr RetTrue, b1, d1) \<and>
               doc_spdx_id d1 = Some v \<and> doc_spdx_id_set b1 \<and>
               spdx_id_lines vd vf (v # ws) b doc = file_spdx_id_lines vf ws b1 d1 \<and>
               (case spdx_id_lines vd vf (v # ws) b doc of
                  (r, b2, d2) \<Rightarrow> doc_spdx_id d2 = Some v \<and> doc_spdx_id_set b2)"
    using p l f k by (intro exI [of _ ?b1] exI [of _ ?d1]) simp
next
  assume "\<not> vd v"
  then show "spdx_id_lines vd vf (v # ws) b doc =
              (Some (SPDXValueError ''Document::SPDXID''), b, doc)"
    using assms by (simp add: p_spdx_id_def set_doc_spdx_id_def)
qed

section \<open>RDF writer: proofs\<close>

subsection \<open>Graphs\<close>

lemma triples_graph_add:
  "triples (graph_add g t) pat =
     (if \<not> matches pat t \<or> t \<in> set g then triples g pat else triples g pat @ [t])"
  by (simp add: triples_def graph_add_def)

lemma set_graph_add: "set (graph_add g t) = insert t (set g)"
  by (auto simp: graph_add_def)

lemma triples_Nil: "triples [] pat = []"
  by (simp add: triples_def)

lemma mem_triples: "matches pat t \<Longrightarrow> t \<in> set g \<longleftrightarrow> t \<in> set (triples g pat)"
  by (simp add: triples_def)

lemma spdx_namespace_inject: "spdx_namespace a = spdx_namespace b \<longleftrightarrow> a = b"
  by (simp add: spdx_namespace_def)

lemma RDF_type_not_spdx: "RDF_type \<noteq> spdx_namespace a" "spdx_namespace a \<noteq> RDF_type"
  by (simp_all add: spdx_namespace_def RDF_type_def)

lemma RDFS_not_spdx:
  "RDFS_seeAlso \<noteq> spdx_namespace a" "spdx_namespace a \<noteq> RDFS_seeAlso"
  "RDFS_comment \<noteq> spdx_namespace a" "spdx_namespace a \<noteq> RDFS_comment"
  "RDFS_seeAlso \<noteq> RDF_type" "RDF_type \<noteq> RDFS_seeAlso"
  "RDFS_comment \<noteq> RDF_type" "RDF_type \<noteq> RDFS_comment"
  by (simp_all add: spdx_namespace_def RDF_type_def RDFS_seeAlso_def RDFS_comment_def)

lemma w_graph_add:
  "w_graph (add w t) = graph_add (w_graph w) t"
  "w_fresh (add w t) = w_fresh w"
  "w_printed (add w t) = w_printed w"
  by (simp_all add: add_def)

lemma fold_add_nomatch:
  "(\<And>x. \<not> matches pat (f x)) \<Longrightarrow>
     triples (w_graph (fold (\<lambda>x w. add w (f x)) xs w)) pat = triples (w_graph w) pat"
  by (induction xs arbitrary: w) (simp_all add: w_graph_add triples_graph_add)

lemma fold_add_fresh: "w_fresh (fold (\<lambda>x w. add w (f x)) xs w) = w_fresh w"
  by (induction xs arbitrary: w) (simp_all add: w_graph_add)

lemma fold_add_set:
  "set (w_graph (fold (\<lambda>x w. add w (f x)) xs w)) = set (w_graph w) \<union> f ` set xs"
  by (induction xs arbitrary: w) (auto simp: w_graph_add set_graph_add)

lemma set_set_add: "set (set_add xs n) = insert n (set xs)"
  by (auto simp: set_add_def)

lemma to_special_value_not_PyStr:
  "to_special_value n \<noteq> PyStr i" "PyStr i \<noteq> to_special_value n"
  by (cases n; simp add: spdx_namespace_def)+

subsection \<open>License expressions\<close>

lemma catalog_leaves_simps:
  "catalog_leaves LM (LicenseConjunction a b) \<longleftrightarrow> catalog_leaves LM a \<and> catalog_leaves LM b"
  "catalog_leaves LM (LicenseDisjunction a b) \<longleftrightarrow> catalog_leaves LM a \<and> catalog_leaves LM b"
  "catalog_leaves LM (Single sl) \<longleftrightarrow>
     (\<exists>l. sl = License l \<and> LM (rstrip_plus (lic_identifier l)) \<noteq> None)"
  by (auto simp: catalog_leaves_def)

lemma licenses_from_tree_helper_catalog:
  "catalog_leaves LM t \<Longrightarrow>
     \<exists>acc'. licenses_from_tree_helper LM exl w t acc = (Inr acc', w) \<and>
       set acc' = set acc \<union> {URIRef (lic_url l) | l. License l \<in> set (leaf_licenses t)}"
proof (induction t arbitrary: acc)
  case (Single sl)
  then show ?case
    by (auto simp: catalog_leaves_simps create_license_helper_def set_set_add)
next
  case (LicenseConjunction a b)
  from LicenseConjunction.prems have ca: "catalog_leaves LM a" and cb: "catalog_leaves LM b"
    by (simp_all add: catalog_leaves_simps)
  from LicenseConjunction.IH(1) [OF ca, of acc] obtain acc1 where
    a: "licenses_from_tree_helper LM exl w a acc = (Inr acc1, w)" and
    sa: "set acc1 = set acc \<union> {URIRef (lic_url l) | l. License l \<in> set (leaf_licenses a)}"
    by blast
  from LicenseConjunction.IH(2) [OF cb, of acc1] obtain acc2 where
    b: "licenses_from_tree_helper LM exl w b acc1 = (Inr acc2, w)" and
    sb: "set acc2 = set acc1 \<union> {URIRef (lic_url l) | l. License l \<in> set (leaf_licenses b)}"
    by blast
  from a b sa sb show ?case by auto
next
  case (LicenseDisjunction a b)
  from LicenseDisjunction.prems have ca: "catalog_leaves LM a" and cb: "catalog_leaves LM b"
    by (simp_all add: catalog_leaves_simps)
  from LicenseDisjunction.IH(1) [OF ca, of acc] obtain acc1 where
    a: "licenses_from_tree_helper LM exl w a acc = (Inr acc1, w)" and
    sa: "set acc1 = set acc \<union> {URIRef (lic_url l) | l. License l \<in> set (leaf_licenses a)}"
    by blast
  from LicenseDisjunction.IH(2) [OF cb, of acc1] obtain acc2 where
    b: "licenses_from_tree_helper LM exl w b acc1 = (Inr acc2, w)" and
    sb: "set acc2 = set acc1 \<union> {URIRef (lic_url l) | l. License l \<in> set (leaf_licenses b)}"
    by blast
  from a b sa sb show ?case by auto
qed

text \<open>
  Claim C4 as stated fails: for \<^verbatim>\<open>MIT AND (Apache-2.0 OR BSD-3-Clause)\<close> the
  conjunction node gets three members, the three leaves, and the graph holds no
  disjunction node.
\<close>

theorem create_conjunction_node_three_members_counterexample:
  "(case create_conjunction_node example_license_map [] new_writer MIT_and_Apache_or_BSD of
      (r, w') \<Rightarrow>
        r = Inr (BNode 0) \<and>
        map (\<lambda>(s, p, obj). obj)
            (triples (w_graph w') (Some (BNode 0), Some (spdx_namespace ''member''), None)) =
          [URIRef ''http://spdx.org/licenses/MIT'', URIRef ''http://spdx.org/licenses/Apache-2.0'',
           URIRef ''http://spdx.org/licenses/BSD-3-Clause''] \<and>
        triples (w_graph w')
          (None, Some RDF_type, Some (spdx_namespace ''DisjunctiveLicenseSet'')) = [])"
  by (simp add: create_conjunction_node_def licenses_from_tree_def create_license_helper_def
      example_license_map_def MIT_and_Apache_or_BSD_def MIT_def Apache_2_0_def BSD_3_Clause_def
      rstrip_plus_def set_add_def new_BNode_def new_writer_def Let_def
      w_graph_add triples_graph_add set_graph_add triples_Nil
      spdx_namespace_inject RDF_type_not_spdx)

text \<open>
  Claim C4, amended: the members of the conjunction node are the leaves of the whole
  expression, flattened. For every expression whose leaves are catalog licenses,
  \<^verbatim>\<open>create_conjunction_node\<close> returns a new blank node and adds to the graph its type
  triple and one member triple for the URL of every leaf, and nothing else; so
  \<^verbatim>\<open>MIT AND (Apache-2.0 OR BSD-3-Clause)\<close> gives a node with the three leaves as members
  and no disjunction node.
\<close>

theorem create_conjunction_node_members_are_all_leaves:
  assumes "catalog_leaves LM t"
  shows "\<exists>w'. create_conjunction_node LM exl w t = (Inr (BNode (w_fresh w)), w') \<and>
           set (w_graph w') =
             set (w_graph w) \<union>
             {(BNode (w_fresh w), RDF_type, spdx_namespace ''ConjunctiveLicenseSet'')} \<union>
             {(BNode (w_fresh w), spdx_namespace ''member'', URIRef (lic_url l)) | l.
                License l \<in> set (leaf_licenses t)} \<and>
           w_fresh w' = Suc (w_fresh w)"
proof -
  let ?n = "BNode (w_fresh w)"
  let ?w0 = "add (w\<lparr>w_fresh := Suc (w_fresh w)\<rparr>)
               (?n, RDF_type, spdx_namespace ''ConjunctiveLicenseSet'')"
  from licenses_from_tree_helper_catalog [OF assms, of exl ?w0 "[]"] obtain ls where
    h: "licenses_from_tree_helper LM exl ?w0 t [] = (Inr ls, ?w0)" and
    s: "set ls = {URIRef (lic_url l) | l. License l \<in> set (leaf_licenses t)}"
    by auto
  have c: "create_conjunction_node LM exl w t =
             (Inr ?n, fold (\<lambda>lic w. add w (?n, spdx_namespace ''member'', lic)) ls ?w0)"
    using h by (simp add: create_conjunction_node_def licenses_from_tree_def new_BNode_def)
  have "set (w_graph (fold (\<lambda>lic w. add w (?n, spdx_namespace ''member'', lic)) ls ?w0)) =
          set (w_graph ?w0) \<union> (\<lambda>lic. (?n, spdx_namespace ''member'', lic)) ` set ls"
    by (rule fold_add_set)
  also have "\<dots> =
      set (w_graph w) \<union> {(?n, RDF_type, spdx_namespace ''ConjunctiveLicenseSet'')} \<union>
      {(?n, spdx_namespace ''member'', URIRef (lic_url l)) | l.
         License l \<in> set (leaf_licenses t)}"
    using s by (auto simp: w_graph_add set_graph_add)
  finally show ?thesis using c by (simp add: fold_add_fresh w_graph_add)
qed

theorem create_conjunction_node_members_are_all_leaves_witness:
  "catalog_leaves example_license_map MIT_and_Apache_or_BSD \<and>
   (\<exists>w'. create_conjunction_node example_license_map [] new_writer MIT_and_Apache_or_BSD =
            (Inr (BNode 0), w') \<and>
          set (w_graph w') =
            {(BNode 0, RDF_type, spdx_namespace ''ConjunctiveLicenseSet''),
             (BNode 0, spdx_namespace ''member'', URIRef ''http://spdx.org/licenses/MIT''),
             (BNode 0, spdx_namespace ''member'', URIRef ''http://spdx.org/licenses/Apache-2.0''),
             (BNode 0, spdx_namespace ''member'',
              URIRef ''http://spdx.org/licenses/BSD-3-Clause'')})"
proof -
  have c: "catalog_leaves example_license_map MIT_and_Apache_or_BSD"
    by (simp add: catalog_leaves_def MIT_and_Apache_or_BSD_def example_license_map_def
        MIT_def Apache_2_0_def BSD_3_Clause_def rstrip_plus_def)
  have l: "{(BNode 0, spdx_namespace ''member'', URIRef (lic_url l)) | l.
             License l \<in> set (leaf_licenses MIT_and_Apache_or_BSD)} =
           {(BNode 0, spdx_namespace ''member'', URIRef (lic_url MIT)),
            (BNode 0, spdx_namespace ''member'', URIRef (lic_url Apache_2_0)),
            (BNode 0, spdx_namespace ''member'', URIRef (lic_url BSD_3_Clause))}"
    by (auto simp: MIT_and_Apache_or_BSD_def)
  have u: "lic_url MIT = ''http://spdx.org/licenses/MIT''"
    "lic_url Apache_2_0 = ''http://spdx.org/licenses/Apache-2.0''"
    "lic_url BSD_3_Clause = ''http://spdx.org/licenses/BSD-3-Clause''"
    by (simp_all add: MIT_def Apache_2_0_def BSD_3_Clause_def)
  from create_conjunction_node_members_are_all_leaves [OF c, of "[]" new_writer] l u c
  show ?thesis by (auto simp: new_writer_def insert_commute)
qed

subsection \<open>Extracted licenses\<close>

lemma create_extracted_license_lookup_stable:
  "triples (w_graph (snd (create_extracted_license w lic)))
       (None, Some (spdx_namespace ''licenseId''), Some (PyStr i)) =
   triples (w_graph w) (None, Some (spdx_namespace ''licenseId''), Some (PyStr i))"
  by (simp add: create_extracted_license_def new_BNode_def Let_def split_def
      w_graph_add triples_graph_add fold_add_nomatch to_special_value_not_PyStr
      RDF_type_not_spdx RDFS_not_spdx spdx_namespace_inject
      split: list.splits option.splits)

lemma create_extracted_license_new_node:
  "triples (w_graph w)
     (None, Some (spdx_namespace ''licenseId''), Some (PyStr (ext_identifier lic))) = [] \<Longrightarrow>
   (BNode (w_fresh w), RDF_type, spdx_namespace ''ExtractedLicensingInfo'') \<notin> set (w_graph w) \<Longrightarrow>
   fst (create_extracted_license w lic) = BNode (w_fresh w) \<and>
   w_fresh (snd (create_extracted_license w lic)) = Suc (w_fresh w) \<and>
   triples (w_graph (snd (create_extracted_license w lic)))
       (None, Some RDF_type, Some (spdx_namespace ''ExtractedLicensingInfo'')) =
     triples (w_graph w) (None, Some RDF_type, Some (spdx_namespace ''ExtractedLicensingInfo'')) @
       [(BNode (w_fresh w), RDF_type, spdx_namespace ''ExtractedLicensingInfo'')]"
  by (simp add: create_extracted_license_def new_BNode_def Let_def split_def
      fold_add_nomatch fold_add_fresh RDF_type_not_spdx RDFS_not_spdx w_graph_add
      triples_graph_add spdx_namespace_inject
      split: option.splits)

text \<open>
  Claim C5, evaluated for any extracted license on a new writer: the second call of
  \<^verbatim>\<open>create_extracted_license\<close> with the same license does not find the node of the
  first call (the lookup asks for the plain string, the graph holds the literal); it
  returns a second blank node, and the graph then has two nodes of type
  ExtractedLicensingInfo. The claim asks for the first node to be returned and for no
  second node.
\<close>

theorem create_extracted_license_second_call_adds_second_node:
  "(case create_extracted_license new_writer lic of
      (n1, w1) \<Rightarrow>
        (case create_extracted_license w1 lic of
           (n2, w2) \<Rightarrow>
             n1 = BNode 0 \<and> n2 = BNode 1 \<and> n2 \<noteq> n1 \<and>
             map fst (triples (w_graph w2)
                        (None, Some RDF_type, Some (spdx_namespace ''ExtractedLicensingInfo''))) =
               [BNode 0, BNode 1]))"
proof -
  let ?pat = "(None, Some (spdx_namespace ''licenseId''), Some (PyStr (ext_identifier lic)))"
  let ?ty = "(None, Some RDF_type, Some (spdx_namespace ''ExtractedLicensingInfo''))"
  let ?w1 = "snd (create_extracted_license new_writer lic)"
  let ?w2 = "snd (create_extracted_license ?w1 lic)"
  have e0: "triples (w_graph new_writer) ?pat = []"
    by (simp add: new_writer_def triples_Nil)
  have m0: "(BNode (w_fresh new_writer), RDF_type, spdx_namespace ''ExtractedLicensingInfo'')
              \<notin> set (w_graph new_writer)"
    by (simp add: new_writer_def)
  from create_extracted_license_new_node [OF e0 m0]
  have n1: "fst (create_extracted_license new_writer lic) = BNode 0"
    and f1: "w_fresh ?w1 = 1"
    and t1: "triples (w_graph ?w1) ?ty =
               [(BNode 0, RDF_type, spdx_namespace ''ExtractedLicensingInfo'')]"
    by (simp_all add: new_writer_def triples_Nil)
  have e1: "triples (w_graph ?w1) ?pat = []"
    using e0 by (simp add: create_extracted_license_lookup_stable)
  have "(BNode (w_fresh ?w1), RDF_type, spdx_namespace ''ExtractedLicensingInfo'')
          \<notin> set (triples (w_graph ?w1) ?ty)"
    by (simp add: t1 f1)
  then have m1: "(BNode (w_fresh ?w1), RDF_type, spdx_namespace ''ExtractedLicensingInfo'')
                   \<notin> set (w_graph ?w1)"
    by (simp add: mem_triples [of ?ty _ "w_graph ?w1"])
  from create_extracted_license_new_node [OF e1 m1]
  have n2: "fst (create_extracted_license ?w1 lic) = BNode 1"
    and t2: "triples (w_graph ?w2) ?ty =
               [(BNode 0, RDF_type, spdx_namespace ''ExtractedLicensingInfo''),
                (BNode 1, RDF_type, spdx_namespace ''ExtractedLicensingInfo'')]"
    by (simp_all add: t1 f1)
  from n1 n2 t2 show ?thesis by (simp add: split_def)
qed

subsection \<open>File dependencies\<close>

lemma name_triples_add_other:
  "p \<noteq> spdx_namespace ''fileName'' \<Longrightarrow>
     name_triples (w_graph (add w (s, p, obj))) d = name_triples (w_graph w) d"
  by (auto simp: name_triples_def w_graph_add triples_graph_add)

lemma add_dependency_resolved:
  "name_triples (w_graph w) d = [(n, p, obj)] \<Longrightarrow>
     add_dependency s nm d w = add w (s, spdx_namespace ''fileDependency'', n)"
  by (simp add: add_dependency_def name_triples_def)

lemma add_dependency_unresolved:
  "\<not> resolved (w_graph w) d \<Longrightarrow>
     add_dependency s nm d w = w\<lparr>w_printed := w_printed w @ [dependency_warning nm d]\<rparr>"
  by (auto simp: add_dependency_def name_triples_def resolved_def split: list.splits)

lemma resolved_iff: "resolved g d \<longleftrightarrow> (\<exists>n p obj. name_triples g d = [(n, p, obj)])"
  by (cases "name_triples g d") (auto simp: resolved_def)

lemma add_dependency_name_triples:
  "name_triples (w_graph (add_dependency s nm d w)) d' = name_triples (w_graph w) d'"
proof (cases "resolved (w_graph w) d")
  case True
  then obtain n p obj where "name_triples (w_graph w) d = [(n, p, obj)]"
    by (auto simp: resolved_iff)
  then show ?thesis
    by (simp add: add_dependency_resolved name_triples_add_other spdx_namespace_inject)
next
  case False
  then show ?thesis by (simp add: add_dependency_unresolved)
qed

lemma dependency_edges_Cons:
  "set (dependency_edges g s (d # ds)) =
     {(s, spdx_namespace ''fileDependency'', n) | n p obj. name_triples g d = [(n, p, obj)]} \<union>
     set (dependency_edges g s ds)"
proof -
  have "set (case name_triples g d of
               [(n, p, obj)] \<Rightarrow> [(s, spdx_namespace ''fileDependency'', n)]
             | _ \<Rightarrow> []) =
        {(s, spdx_namespace ''fileDependency'', n) | n p obj. name_triples g d = [(n, p, obj)]}"
    by (cases "name_triples g d") (auto split: list.splits)
  then show ?thesis by (simp add: dependency_edges_def)
qed

lemma dependency_edges_cong:
  "(\<And>d. name_triples g' d = name_triples g d) \<Longrightarrow>
     dependency_edges g' s ds = dependency_edges g s ds"
  by (simp add: dependency_edges_def)

lemma resolved_cong:
  "(\<And>d. name_triples g' d = name_triples g d) \<Longrightarrow> resolved g' = resolved g"
  by (simp add: resolved_def fun_eq_iff)

lemma file_dependency_edges_cong:
  "(\<And>d. name_triples g' d = name_triples g d) \<Longrightarrow>
     file_dependency_edges g' f = file_dependency_edges g f"
  using dependency_edges_cong [of g' g]
  by (auto simp: file_dependency_edges_def split: list.splits)

lemma unresolved_warnings_cong:
  "(\<And>d. name_triples g' d = name_triples g d) \<Longrightarrow>
     unresolved_warnings g' f = unresolved_warnings g f"
  by (simp add: unresolved_warnings_def resolved_cong [of g' g])

lemma add_dependency_step:
  "set (w_graph (add_dependency s nm d w)) =
     set (w_graph w) \<union>
     {(s, spdx_namespace ''fileDependency'', n) | n p obj.
        name_triples (w_graph w) d = [(n, p, obj)]} \<and>
   w_printed (add_dependency s nm d w) =
     w_printed w @ (if resolved (w_graph w) d then [] else [dependency_warning nm d]) \<and>
   w_fresh (add_dependency s nm d w) = w_fresh w"
proof (cases "resolved (w_graph w) d")
  case True
  then obtain n p obj where r: "name_triples (w_graph w) d = [(n, p, obj)]"
    by (auto simp: resolved_iff)
  with True show ?thesis
    by (auto simp: add_dependency_resolved w_graph_add set_graph_add)
next
  case False
  then have "\<And>n p obj. name_triples (w_graph w) d \<noteq> [(n, p, obj)]"
    by (auto simp: resolved_iff)
  with False show ?thesis
    by (simp add: add_dependency_unresolved)
qed

lemma dependencies_loop:
  "set (w_graph (fold (add_dependency s nm) ds w)) =
     set (w_graph w) \<union> set (dependency_edges (w_graph w) s ds) \<and>
   w_printed (fold (add_dependency s nm) ds w) =
     w_printed w @ map (dependency_warning nm) (filter (\<lambda>d. \<not> resolved (w_graph w) d) ds) \<and>
   w_fresh (fold (add_dependency s nm) ds w) = w_fresh w"
proof (induction ds arbitrary: w)
  case Nil
  show ?case by (simp add: dependency_edges_def)
next
  case (Cons d ds)
  let ?w1 = "add_dependency s nm d w"
  have n: "\<And>d'. name_triples (w_graph ?w1) d' = name_triples (w_graph w) d'"
    by (rule add_dependency_name_triples)
  have e: "dependency_edges (w_graph ?w1) s ds = dependency_edges (w_graph w) s ds"
    using n by (rule dependency_edges_cong)
  have r: "resolved (w_graph ?w1) = resolved (w_graph w)"
    using n by (rule resolved_cong)
  from Cons.IH [of ?w1] add_dependency_step [of s nm d w] e r
  show ?case by (auto simp: dependency_edges_Cons)
qed

lemma dependencies_loop_name_triples:
  "name_triples (w_graph (fold (add_dependency s nm) ds w)) d' = name_triples (w_graph w) d'"
  by (induction ds arbitrary: w) (simp_all add: add_dependency_name_triples)

lemma helper_resolved_subject:
  assumes "resolved (w_graph w) (df_name f)"
  shows "\<exists>w'. add_file_dependencies_helper w f = (Inr (), w') \<and>
           set (w_graph w') = set (w_graph w) \<union> set (file_dependency_edges (w_graph w) f) \<and>
           w_printed w' = w_printed w @ unresolved_warnings (w_graph w) f \<and>
           w_fresh w' = w_fresh w \<and>
           (\<forall>d. name_triples (w_graph w') d = name_triples (w_graph w) d)"
proof -
  from assms obtain s p obj where r: "name_triples (w_graph w) (df_name f) = [(s, p, obj)]"
    by (auto simp: resolved_iff)
  have h: "add_file_dependencies_helper w f =
          (Inr (), fold (add_dependency s (df_name f)) (df_dependencies f) w)"
    using r by (simp add: add_file_dependencies_helper_def name_triples_def)
  show ?thesis
    using h r dependencies_loop [of s "df_name f" "df_dependencies f" w]
    by (simp add: file_dependency_edges_def unresolved_warnings_def
        dependencies_loop_name_triples)
qed

lemma helper_unresolved_subject:
  "\<not> resolved (w_graph w) (df_name f) \<Longrightarrow>
     add_file_dependencies_helper w f =
       (Inl (InvalidDocumentError (''Could not find dependency subject '' @ df_name f)), w)"
  by (auto simp: add_file_dependencies_helper_def resolved_def name_triples_def
      split: list.splits)

lemmas write_files_eval =
  write_files.simps create_file_node_def create_checksum_node_def new_BNode_def
  Let_def split_def name_triples_def new_writer_def doc_node_def
  w_graph_add triples_graph_add set_graph_add triples_Nil
  spdx_namespace_inject RDF_type_not_spdx

text \<open>
  Claim C6 as stated fails when the depending file's own name does not resolve: two
  emitted files share the name \<^verbatim>\<open>./a.py\<close>, the first lists the unknown dependency
  \<^verbatim>\<open>./missing.py\<close>, and the dependency pass raises InvalidDocumentError before it looks
  at any dependency; nothing is printed and nothing is added.
\<close>

theorem add_file_dependencies_same_name_counterexample:
  "fst (write_files Map.empty [] doc_node [file_a, file_a_again] new_writer) = Inr () \<and>
   ''./missing.py'' \<in> set (df_dependencies file_a) \<and>
   \<not> resolved (w_graph (snd (write_files Map.empty [] doc_node [file_a, file_a_again]
                              new_writer))) ''./missing.py'' \<and>
   add_file_dependencies
       (snd (write_files Map.empty [] doc_node [file_a, file_a_again] new_writer))
       [file_a, file_a_again] =
     (Inl (InvalidDocumentError ''Could not find dependency subject ./a.py''),
      snd (write_files Map.empty [] doc_node [file_a, file_a_again] new_writer))"
proof -
  define w where "w = snd (write_files Map.empty [] doc_node [file_a, file_a_again] new_writer)"
  have r: "fst (write_files Map.empty [] doc_node [file_a, file_a_again] new_writer) = Inr ()"
    by (simp add: write_files_eval file_a_def file_a_again_def)
  have a: "name_triples (w_graph w) ''./a.py'' =
             [(URIRef ''http://www.spdx.org/files#SPDXRef-1'', spdx_namespace ''fileName'',
               Literal ''./a.py''),
              (URIRef ''http://www.spdx.org/files#SPDXRef-3'', spdx_namespace ''fileName'',
               Literal ''./a.py'')]"
    unfolding w_def by (simp add: write_files_eval file_a_def file_a_again_def)
  have m: "name_triples (w_graph w) ''./missing.py'' = []"
    unfolding w_def by (simp add: write_files_eval file_a_def file_a_again_def)
  have n: "df_name file_a = ''./a.py''" by (simp add: file_a_def)
  have "\<not> resolved (w_graph w) (df_name file_a)"
    by (simp add: resolved_def a n)
  from helper_unresolved_subject [OF this]
  have h: "add_file_dependencies w [file_a, file_a_again] =
          (Inl (InvalidDocumentError ''Could not find dependency subject ./a.py''), w)"
    by (simp add: n)
  have u: "\<not> resolved (w_graph w) ''./missing.py''"
    by (simp add: resolved_def m)
  have d: "''./missing.py'' \<in> set (df_dependencies file_a)"
    by (simp add: file_a_def)
  from r d u h have
    "fst (write_files Map.empty [] doc_node [file_a, file_a_again] new_writer) = Inr () \<and>
     ''./missing.py'' \<in> set (df_dependencies file_a) \<and>
     \<not> resolved (w_graph w) ''./missing.py'' \<and>
     add_file_dependencies w [file_a, file_a_again] =
       (Inl (InvalidDocumentError ''Could not find dependency subject ./a.py''), w)"
    by blast
  then show ?thesis unfolding w_def .
qed

text \<open>
  Claim C6, amended: when the name of every file of the document resolves (exactly one
  \<^verbatim>\<open>fileName\<close> triple carries it), the dependency pass does not raise; for every
  dependency entry whose name resolves it adds the edge from the file's node to the
  node the name resolves to, and for every other entry it prints a warning and adds
  nothing. Nothing else is added to the graph or printed.
\<close>

theorem add_file_dependencies_warns_and_omits:
  assumes "\<forall>f \<in> set files. resolved (w_graph w) (df_name f)"
  shows "\<exists>w'. add_file_dependencies w files = (Inr (), w') \<and>
           set (w_graph w') =
             set (w_graph w) \<union> set (concat (map (file_dependency_edges (w_graph w)) files)) \<and>
           w_printed w' = w_printed w @ concat (map (unresolved_warnings (w_graph w)) files) \<and>
           w_fresh w' = w_fresh w"
  using assms
proof (induction files arbitrary: w)
  case Nil
  show ?case by simp
next
  case (Cons f fs)
  from Cons.prems have "resolved (w_graph w) (df_name f)" by simp
  from helper_resolved_subject [OF this] obtain w1 where
    h: "add_file_dependencies_helper w f = (Inr (), w1)" and
    g: "set (w_graph w1) = set (w_graph w) \<union> set (file_dependency_edges (w_graph w) f)" and
    p: "w_printed w1 = w_printed w @ unresolved_warnings (w_graph w) f" and
    n: "w_fresh w1 = w_fresh w" and
    k: "\<And>d. name_triples (w_graph w1) d = name_triples (w_graph w) d"
    by blast
  have r: "resolved (w_graph w1) = resolved (w_graph w)" using k by (rule resolved_cong)
  have e: "map (file_dependency_edges (w_graph w1)) fs =
           map (file_dependency_edges (w_graph w)) fs"
    using file_dependency_edges_cong [OF k] by simp
  have u: "map (unresolved_warnings (w_graph w1)) fs = map (unresolved_warnings (w_graph w)) fs"
    using unresolved_warnings_cong [OF k] by simp
  from Cons.prems r have "\<forall>f \<in> set fs. resolved (w_graph w1) (df_name f)" by simp
  from Cons.IH [OF this] obtain w' where
    "add_file_dependencies w1 fs = (Inr (), w')" and
    "set (w_graph w') =
       set (w_graph w1) \<union> set (concat (map (file_dependency_edges (w_graph w1)) fs))" and
    "w_printed w' = w_printed w1 @ concat (map (unresolved_warnings (w_graph w1)) fs)" and
    "w_fresh w' = w_fresh w1"
    by blast
  then show ?case by (simp add: h g p n e u Un_assoc)
qed

theorem add_file_dependencies_warns_and_omits_witness:
  "resolved (w_graph (snd (write_files Map.empty [] doc_node [file_a, file_b] new_writer)))
     (df_name file_a) \<and>
   resolved (w_graph (snd (write_files Map.empty [] doc_node [file_a, file_b] new_writer)))
     (df_name file_b) \<and>
   (\<exists>w'. add_file_dependencies
            (snd (write_files Map.empty [] doc_node [file_a, file_b] new_writer))
            [file_a, file_b] = (Inr (), w') \<and>
          set (w_graph w') =
            insert (URIRef ''http://www.spdx.org/files#SPDXRef-1'',
                    spdx_namespace ''fileDependency'',
                    URIRef ''http://www.spdx.org/files#SPDXRef-2'')
              (set (w_graph (snd (write_files Map.empty [] doc_node [file_a, file_b]
                                    new_writer)))) \<and>
          w_printed w' =
            [''Warning could not resolve file dependency ./a.py -> ./missing.py''])"
proof -
  define w where "w = snd (write_files Map.empty [] doc_node [file_a, file_b] new_writer)"
  have a: "name_triples (w_graph w) ''./a.py'' =
             [(URIRef ''http://www.spdx.org/files#SPDXRef-1'', spdx_namespace ''fileName'',
               Literal ''./a.py'')]"
    unfolding w_def by (simp add: write_files_eval file_a_def file_b_def)
  have b: "name_triples (w_graph w) ''./b.py'' =
             [(URIRef ''http://www.spdx.org/files#SPDXRef-2'', spdx_namespace ''fileName'',
               Literal ''./b.py'')]"
    unfolding w_def by (simp add: write_files_eval file_a_def file_b_def)
  have m: "name_triples (w_graph w) ''./missing.py'' = []"
    unfolding w_def by (simp add: write_files_eval file_a_def file_b_def)
  have p: "w_printed w = []"
    unfolding w_def by (simp add: write_files_eval file_a_def file_b_def)
  have n: "df_name file_a = ''./a.py''" "df_name file_b = ''./b.py''"
    "df_dependencies file_a = [''./missing.py'', ''./b.py'']" "df_dependencies file_b = []"
    by (simp_all add: file_a_def file_b_def)
  have ra: "resolved (w_graph w) (df_name file_a)"
    by (simp add: resolved_def a n)
  have rb: "resolved (w_graph w) (df_name file_b)"
    by (simp add: resolved_def b n)
  have res: "\<forall>f \<in> set [file_a, file_b]. resolved (w_graph w) (df_name f)"
    using ra rb by simp
  have ea: "file_dependency_edges (w_graph w) file_a =
              [(URIRef ''http://www.spdx.org/files#SPDXRef-1'', spdx_namespace ''fileDependency'',
                URIRef ''http://www.spdx.org/files#SPDXRef-2'')]"
    by (simp add: file_dependency_edges_def dependency_edges_def a b m n)
  have eb: "file_dependency_edges (w_graph w) file_b = []"
    by (simp add: file_dependency_edges_def dependency_edges_def b n)
  have ua: "unresolved_warnings (w_graph w) file_a =
              [''Warning could not resolve file dependency ./a.py -> ./missing.py'']"
    by (simp add: unresolved_warnings_def resolved_def dependency_warning_def a b m n)
  have ub: "unresolved_warnings (w_graph w) file_b = []"
    by (simp add: unresolved_warnings_def n)
  from add_file_dependencies_warns_and_omits [OF res] obtain w' where
    "add_file_dependencies w [file_a, file_b] = (Inr (), w')" and
    "set (w_graph w') =
       set (w_graph w) \<union> set (concat (map (file_dependency_edges (w_graph w)) [file_a, file_b]))" and
    "w_printed w' =
       w_printed w @ concat (map (unresolved_warnings (w_graph w)) [file_a, file_b])"
    by blast
  then have "add_file_dependencies w [file_a, file_b] = (Inr (), w') \<and>
          set (w_graph w') =
            insert (URIRef ''http://www.spdx.org/files#SPDXRef-1'',
                    spdx_namespace ''fileDependency'',
                    URIRef ''http://www.spdx.org/files#SPDXRef-2'')
              (set (w_graph w)) \<and>
          w_printed w' =
            [''Warning could not resolve file dependency ./a.py -> ./missing.py'']"
    by (simp add: ea eb ua ub p)
  with ra rb have
    "resolved (w_graph w) (df_name file_a) \<and> resolved (w_graph w) (df_name file_b) \<and>
     (\<exists>w'. add_file_dependencies w [file_a, file_b] = (Inr (), w') \<and>
          set (w_graph w') =
            insert (URIRef ''http://www.spdx.org/files#SPDXRef-1'',
                    spdx_namespace ''fileDependency'',
                    URIRef ''http://www.spdx.org/files#SPDXRef-2'')
              (set (w_graph w)) \<and>
          w_printed w' =
            [''Warning could not resolve file dependency ./a.py -> ./missing.py''])"
    by blast
  then show ?thesis unfolding w_def .
qed

end
